theory Spec2Isabelle
  imports Complex_Main
begin

section \<open>Data model (src/index.tsx, lines 5-41)\<close>

text \<open>
  The interfaces \<open>Quest\<close>, \<open>Skill\<close> and \<open>UserState\<close> become records. Every
  \<open>number\<close> of the program is an IEEE double, and the progression engine is modelled
  twice. In the records of this section a \<open>number\<close> that the program uses as a count
  (level, experience, quest reward; the response schema declares the reward
  \<open>INTEGER\<close>) is an \<open>int\<close> and a \<open>number\<close> that holds a measured quantity (goal,
  progress, the daily counters) is a \<open>real\<close>, and the engine computes on them without
  rounding. That is the program as long as none of its operations rounds, and it is
  what startup, daily refresh and onboarding are stated on, which copy these fields and
  compare them but do no arithmetic on them. The second model, in the section on IEEE
  doubles below, takes every \<open>number\<close> as a double, with \<open>NaN\<close>, the infinities and
  rounding to nearest after every operation; the properties that depend on how the
  program adds, subtracts and multiplies are stated there, and the two level-up loops
  are shown to agree where no operation rounds (\<open>levelUpD_safe\<close>).
  Field names that occur in more than one interface carry the interface as a prefix.
\<close>

datatype QuestType = Static | Distance

record Quest =
  quest_id :: string
  title :: string
  description :: string
  quest_xp :: int
  quest_type :: QuestType
  goal :: real
  progress :: real

record Skill =
  skill_name :: string
  skill_level :: int
  skill_description :: string

text \<open>
  \<open>lastLogin\<close> is an ISO date string in the source, always written by
  \<open>new Date().toISOString()\<close> and read back by \<open>new Date(...)\<close>; the model keeps the
  instant it denotes, in milliseconds since the epoch.
\<close>

type_synonym timestamp = int

record UserState =
  level :: int
  xp :: int
  difficulty :: string
  quests :: "Quest list"
  skills :: "Skill list"
  name :: string
  lastLogin :: timestamp
  dailySteps :: real
  dailyDistance :: real

definition XP_PER_LEVEL :: int where
  "XP_PER_LEVEL = 100"

section \<open>Progression engine: \<open>updateQuestProgress\<close> (lines 396-428)\<close>

text \<open>
  The callback of \<open>prevState.quests.map\<close> (lines 401-410). It returns the quest of the
  new list and updates the captured accumulator \<open>xpGained\<close>, which is threaded through
  explicitly.
\<close>

definition questCallback :: "string \<Rightarrow> real \<Rightarrow> Quest \<Rightarrow> int \<Rightarrow> Quest \<times> int" where
  "questCallback questId v q xpGained =
     (if quest_id q = questId \<and> progress q < goal q then
        let newProgress = min (progress q + v) (goal q) in
          (q\<lparr>progress := newProgress\<rparr>,
           if newProgress \<ge> goal q \<and> progress q < goal q
           then xpGained + quest_xp q else xpGained)
      else (q, xpGained))"

fun mapQuests :: "string \<Rightarrow> real \<Rightarrow> Quest list \<Rightarrow> int \<Rightarrow> Quest list \<times> int" where
  "mapQuests questId v [] xpGained = ([], xpGained)"
| "mapQuests questId v (q # qs) xpGained =
     (let (q', xpGained') = questCallback questId v q xpGained;
          (qs', xpGained'') = mapQuests questId v qs xpGained'
      in (q' # qs', xpGained''))"

text \<open>
  The level-up loop (lines 418-424), on the pair \<open>(newXp, newLevel)\<close>;
  \<open>xpForNextLevel\<close> is always \<open>XP_PER_LEVEL * newLevel\<close>. Once the level is positive
  every round lowers the experience; below that every round raises the level towards 1.
\<close>

function levelUp :: "int \<Rightarrow> int \<Rightarrow> int \<times> int" where
  "levelUp newXp newLevel =
     (if newXp \<ge> XP_PER_LEVEL * newLevel
      then levelUp (newXp - XP_PER_LEVEL * newLevel) (newLevel + 1)
      else (newXp, newLevel))"
  by pat_completeness auto
termination
  by (relation "measures [\<lambda>(x, l). nat (1 - l), \<lambda>(x, l). nat x]")
     (auto simp: XP_PER_LEVEL_def)

declare levelUp.simps [simp del]

text \<open>
  The test of line 412: no experience gained and every quest of the new list has the
  progress of the quest at the same index of the old list.
\<close>

definition noChange :: "int \<Rightarrow> Quest list \<Rightarrow> Quest list \<Rightarrow> bool" where
  "noChange xpGained newQuests oldQuests \<longleftrightarrow>
     xpGained = 0 \<and> list_all (\<lambda>(q, p). progress q = progress p) (zip newQuests oldQuests)"

text \<open>The updater passed to \<open>updateAndSaveState\<close>, for a state that is not \<open>null\<close>.\<close>

definition updateQuestProgress :: "string \<Rightarrow> real \<Rightarrow> UserState \<Rightarrow> UserState" where
  "updateQuestProgress questId v prevState =
     (let (newQuests, xpGained) = mapQuests questId v (quests prevState) 0 in
        if noChange xpGained newQuests (quests prevState) then prevState
        else
          let (newXp, newLevel) = levelUp (xp prevState + xpGained) (level prevState)
          in prevState\<lparr>quests := newQuests, xp := newXp, level := newLevel\<rparr>)"

subsection \<open>Names for the parts of one update\<close>

text \<open>
  \<open>advance\<close> is the quest the callback returns for \<open>q\<close>; \<open>xpGainedOf\<close> is the value
  of \<open>xpGained\<close> after the \<open>map\<close>; \<open>awarded\<close> is the condition under which line 405
  (\<open>xpGained += q.xp\<close>) runs for \<open>q\<close>: the guard of line 402 and then the guard of
  line 404.
\<close>

definition advance :: "string \<Rightarrow> real \<Rightarrow> Quest \<Rightarrow> Quest" where
  "advance questId v q = fst (questCallback questId v q 0)"

definition xpGainedOf :: "string \<Rightarrow> real \<Rightarrow> Quest list \<Rightarrow> int" where
  "xpGainedOf questId v qs = snd (mapQuests questId v qs 0)"

definition awarded :: "string \<Rightarrow> real \<Rightarrow> Quest \<Rightarrow> bool" where
  "awarded questId v q \<longleftrightarrow>
     quest_id q = questId \<and> progress q < goal q \<and>
     min (progress q + v) (goal q) \<ge> goal q \<and> progress q < goal q"

section \<open>The progression engine on IEEE doubles\<close>

subsection \<open>JavaScript numbers\<close>

text \<open>
  A JavaScript \<open>number\<close> is a binary64 value: \<open>NaN\<close>, one of the two infinities, or a
  finite value \<open>Fin r\<close>, where \<open>r\<close> is the real it denotes. The two zeros are one value
  here; no comparison of the language tells them apart. Every arithmetic operation
  computes the exact real result and rounds it to the nearest double, ties to the even
  mantissa; \<open>fl\<close> is that rounding. \<open>binade x\<close> is the exponent \<open>e\<close> with
  \<open>2^e \<le> |x| < 2^(e+1)\<close>, and \<open>ulp x\<close> the spacing of the doubles around \<open>x\<close>:
  \<open>2^(e-52)\<close>, and \<open>2^(-1074)\<close> throughout the subnormal range. A result that rounds to
  \<open>2^1024\<close> or beyond is an infinity.
\<close>

datatype number = NaN | PInf | NInf | Fin real

definition binade :: "real \<Rightarrow> int" where
  "binade x = \<lfloor>log 2 \<bar>x\<bar>\<rfloor>"

definition ulp :: "real \<Rightarrow> real" where
  "ulp x = 2 powi (max (binade x) (- 1022) - 52)"

definition roundEven :: "real \<Rightarrow> int" where
  "roundEven y =
     (let f = \<lfloor>y\<rfloor>; r = y - of_int f
      in if r < 1 / 2 then f
         else if 1 / 2 < r then f + 1
         else if even f then f else f + 1)"

definition fl :: "real \<Rightarrow> number" where
  "fl x =
     (if x = 0 then Fin 0
      else let y = ulp x * of_int (roundEven (x / ulp x))
           in if 2 ^ 1024 \<le> y then PInf
              else if y \<le> - (2 ^ 1024) then NInf
              else Fin y)"

text \<open>
  The operators the engine uses: unary minus, \<open>+\<close>, \<open>-\<close>, \<open>*\<close>, \<open><\<close>, \<open>>=\<close>, \<open>===\<close>
  on numbers, and \<open>Math.min\<close> of two arguments. A comparison with \<open>NaN\<close> is false;
  \<open>Math.min\<close> with a \<open>NaN\<close> argument is \<open>NaN\<close>.
\<close>

fun numNeg :: "number \<Rightarrow> number" where
  "numNeg NaN = NaN"
| "numNeg PInf = NInf"
| "numNeg NInf = PInf"
| "numNeg (Fin a) = Fin (- a)"

fun numAdd :: "number \<Rightarrow> number \<Rightarrow> number" where
  "numAdd NaN _ = NaN"
| "numAdd _ NaN = NaN"
| "numAdd PInf NInf = NaN"
| "numAdd NInf PInf = NaN"
| "numAdd PInf _ = PInf"
| "numAdd _ PInf = PInf"
| "numAdd NInf _ = NInf"
| "numAdd _ NInf = NInf"
| "numAdd (Fin a) (Fin b) = fl (a + b)"

definition numSub :: "number \<Rightarrow> number \<Rightarrow> number" where
  "numSub a b = numAdd a (numNeg b)"

fun numMul :: "number \<Rightarrow> number \<Rightarrow> number" where
  "numMul NaN _ = NaN"
| "numMul _ NaN = NaN"
| "numMul (Fin a) (Fin b) = fl (a * b)"
| "numMul (Fin a) PInf = (if a = 0 then NaN else if 0 < a then PInf else NInf)"
| "numMul (Fin a) NInf = (if a = 0 then NaN else if 0 < a then NInf else PInf)"
| "numMul PInf (Fin b) = (if b = 0 then NaN else if 0 < b then PInf else NInf)"
| "numMul NInf (Fin b) = (if b = 0 then NaN else if 0 < b then NInf else PInf)"
| "numMul PInf PInf = PInf"
| "numMul NInf NInf = PInf"
| "numMul PInf NInf = NInf"
| "numMul NInf PInf = NInf"

fun numLt :: "number \<Rightarrow> number \<Rightarrow> bool" where
  "numLt NaN _ = False"
| "numLt _ NaN = False"
| "numLt (Fin a) (Fin b) = (a < b)"
| "numLt _ NInf = False"
| "numLt NInf _ = True"
| "numLt PInf _ = False"
| "numLt _ PInf = True"

fun numGe :: "number \<Rightarrow> number \<Rightarrow> bool" where
  "numGe NaN _ = False"
| "numGe _ NaN = False"
| "numGe a b = (\<not> numLt a b)"

fun numEq :: "number \<Rightarrow> number \<Rightarrow> bool" where
  "numEq NaN _ = False"
| "numEq _ NaN = False"
| "numEq a b = (a = b)"

fun mathMin :: "number \<Rightarrow> number \<Rightarrow> number" where
  "mathMin NaN _ = NaN"
| "mathMin _ NaN = NaN"
| "mathMin a b = (if numLt b a then b else a)"

subsection \<open>The records and \<open>updateQuestProgress\<close> with every number a double\<close>

text \<open>
  The interfaces \<open>Quest\<close> and \<open>UserState\<close> once more, every \<open>number\<close> field a
  \<open>number\<close>, and lines 396-428 once more, every operator the operator on doubles. The
  names are those of the exact model with the letter \<open>D\<close> added (fields: \<open>q_\<close> for a
  quest, \<open>u_\<close> for the user state).
\<close>

record QuestD =
  q_id :: string
  q_title :: string
  q_description :: string
  q_xp :: number
  q_type :: QuestType
  q_goal :: number
  q_progress :: number

record UserStateD =
  u_level :: number
  u_xp :: number
  u_difficulty :: string
  u_quests :: "QuestD list"
  u_skills :: "Skill list"
  u_name :: string
  u_lastLogin :: timestamp
  u_dailySteps :: number
  u_dailyDistance :: number

text \<open>The callback of \<open>prevState.quests.map\<close> (lines 401-410).\<close>

definition questCallbackD :: "string \<Rightarrow> number \<Rightarrow> QuestD \<Rightarrow> number \<Rightarrow> QuestD \<times> number" where
  "questCallbackD questId v q xpGained =
     (if q_id q = questId \<and> numLt (q_progress q) (q_goal q) then
        let newProgress = mathMin (numAdd (q_progress q) v) (q_goal q) in
          (q\<lparr>q_progress := newProgress\<rparr>,
           if numGe newProgress (q_goal q) \<and> numLt (q_progress q) (q_goal q)
           then numAdd xpGained (q_xp q) else xpGained)
      else (q, xpGained))"

fun mapQuestsD :: "string \<Rightarrow> number \<Rightarrow> QuestD list \<Rightarrow> number \<Rightarrow> QuestD list \<times> number" where
  "mapQuestsD questId v [] xpGained = ([], xpGained)"
| "mapQuestsD questId v (q # qs) xpGained =
     (let (q', xpGained') = questCallbackD questId v q xpGained;
          (qs', xpGained'') = mapQuestsD questId v qs xpGained'
      in (q' # qs', xpGained''))"

text \<open>
  The \<open>while\<close> loop of lines 420-424 on the pair \<open>(newXp, newLevel)\<close>, with
  \<open>xpForNextLevel = XP_PER_LEVEL * newLevel\<close> (lines 418 and 423), \<open>newXp -=
  xpForNextLevel\<close> and \<open>newLevel++\<close>. Nothing in the loop itself bounds the number of
  rounds, so it is a function that may fail to return: \<open>None\<close> stands for a loop that
  runs forever.
\<close>

partial_function (option) levelUpD :: "number \<Rightarrow> number \<Rightarrow> (number \<times> number) option" where
  "levelUpD newXp newLevel =
     (if numGe newXp (numMul (Fin 100) newLevel)
      then levelUpD (numSub newXp (numMul (Fin 100) newLevel)) (numAdd newLevel (Fin 1))
      else Some (newXp, newLevel))"

text \<open>The test of line 412.\<close>

definition noChangeD :: "number \<Rightarrow> QuestD list \<Rightarrow> QuestD list \<Rightarrow> bool" where
  "noChangeD xpGained newQuests oldQuests \<longleftrightarrow>
     numEq xpGained (Fin 0) \<and>
     list_all (\<lambda>(q, p). numEq (q_progress q) (q_progress p)) (zip newQuests oldQuests)"

text \<open>
  The updater passed to \<open>updateAndSaveState\<close>, for a state that is not \<open>null\<close>. The
  result is \<open>None\<close> when the loop does not return.
\<close>

definition updateQuestProgressD :: "string \<Rightarrow> number \<Rightarrow> UserStateD \<Rightarrow> UserStateD option" where
  "updateQuestProgressD questId v prevState =
     (let (newQuests, xpGained) = mapQuestsD questId v (u_quests prevState) (Fin 0) in
        if noChangeD xpGained newQuests (u_quests prevState) then Some prevState
        else
          case levelUpD (numAdd (u_xp prevState) xpGained) (u_level prevState) of
            None \<Rightarrow> None
          | Some (newXp, newLevel) \<Rightarrow>
              Some (prevState\<lparr>u_quests := newQuests, u_xp := newXp, u_level := newLevel\<rparr>))"

text \<open>
  Names for the parts of one update, as for the exact model, and the number of times
  the quest at index \<open>i\<close> is awarded while a sequence of updates \<open>(questId, value)\<close> is
  applied in order, each to the state the previous one returned; the sequence ends at
  an update that does not return.
\<close>

definition advanceD :: "string \<Rightarrow> number \<Rightarrow> QuestD \<Rightarrow> QuestD" where
  "advanceD questId v q = fst (questCallbackD questId v q (Fin 0))"

definition xpGainedOfD :: "string \<Rightarrow> number \<Rightarrow> QuestD list \<Rightarrow> number" where
  "xpGainedOfD questId v qs = snd (mapQuestsD questId v qs (Fin 0))"

definition awardedD :: "string \<Rightarrow> number \<Rightarrow> QuestD \<Rightarrow> bool" where
  "awardedD questId v q \<longleftrightarrow>
     q_id q = questId \<and> numLt (q_progress q) (q_goal q) \<and>
     numGe (mathMin (numAdd (q_progress q) v) (q_goal q)) (q_goal q) \<and>
     numLt (q_progress q) (q_goal q)"


section \<open>Quest generation and the session (lines 61-95, 136-198, 379-394, 468-523)\<close>

subsection \<open>The oracle\<close>

text \<open>
  The awaited call \<open>ai.models.generateContent\<close> either throws or returns a response
  with a text. \<open>parseAiJson\<close> (lines 61-74) rests on a regular expression and on
  \<open>JSON.parse\<close>, which belong to the platform, so it is a parameter here: a function
  from the text to the parsed value, \<open>None\<close> where the source returns \<open>null\<close> or a
  value that \<open>!parsed\<close> rejects. A parsed value is an array of quests (what the daily
  refresh asks for), an object with a difficulty and quests (what the questionnaire asks
  for), or any other JSON value.
\<close>

datatype GenerateResult = Rejected | ResponseText string

datatype AiData = QuestArray "Quest list" | Assessment string "Quest list" | OtherJson

type_synonym parser = "string \<Rightarrow> AiData option"

text \<open>
  \<open>getAiResponse\<close> (lines 76-95): every exception of the \<open>try\<close> block, the one thrown
  for an unparseable text included, ends in the \<open>catch\<close> that returns \<open>null\<close>.
\<close>

definition getAiResponse :: "parser \<Rightarrow> GenerateResult \<Rightarrow> AiData option" where
  "getAiResponse parseAiJson response =
     (case response of
        Rejected \<Rightarrow> None
      | ResponseText text \<Rightarrow>
          (case parseAiJson text of
             None \<Rightarrow> None
           | Some parsed \<Rightarrow> Some parsed))"

subsection \<open>Calendar days\<close>

definition msPerDay :: int where
  "msPerDay = 86400000"

text \<open>
  \<open>new Date(t).toISOString().split('T')[0]\<close> is the date part \<open>YYYY-MM-DD\<close> of the
  instant \<open>t\<close> rendered in UTC. Two instants have the same date part exactly when they
  have the same UTC day number \<open>\<lfloor>t / msPerDay\<rfloor>\<close>, which stands for the text here.
\<close>

definition isoDay :: "timestamp \<Rightarrow> int" where
  "isoDay t = t div msPerDay"

text \<open>The comparison of lines 477-480: \<open>today !== lastLoginDay\<close>.\<close>

definition dayChanged :: "timestamp \<Rightarrow> UserState \<Rightarrow> bool" where
  "dayChanged now parsedState \<longleftrightarrow>
     (let today = isoDay now;
          lastLoginDay = isoDay (lastLogin parsedState)
      in today \<noteq> lastLoginDay)"

text \<open>
  From the specification's words, not from the source: the calendar day of an instant in
  a local time zone whose clock is \<open>offsetMinutes\<close> ahead of UTC.
\<close>

definition localCalendarDay :: "int \<Rightarrow> timestamp \<Rightarrow> int" where
  "localCalendarDay offsetMinutes t = (t + offsetMinutes * 60000) div msPerDay"

subsection \<open>Startup\<close>

text \<open>
  The persisted slot as the mount effect sees it: no item, an item that makes the
  \<open>try\<close> block throw (\<open>JSON.parse\<close> fails, or \<open>lastLogin\<close> is no date), or a
  record.
\<close>

datatype Slot = Absent | Corrupt | Stored UserState

record App =
  userState :: "UserState option"
  storage :: Slot
  isLoading :: bool

text \<open>
  \<open>generateNewQuests\<close> (lines 482-509). \<open>now'\<close> is the clock when the oracle has
  answered. A parsed value that is not an array has no \<open>map\<close>: the call throws, the
  promise is rejected and nothing after it runs, which is the result \<open>None\<close>.
\<close>

definition generateNewQuests ::
    "parser \<Rightarrow> timestamp \<Rightarrow> GenerateResult \<Rightarrow> UserState \<Rightarrow> UserState option" where
  "generateNewQuests parseAiJson now' response parsedState =
     (let refreshed = (\<lambda>freshQuests.
            parsedState\<lparr>quests := freshQuests, lastLogin := now',
                        dailyDistance := 0, dailySteps := 0\<rparr>)
      in case getAiResponse parseAiJson response of
           None \<Rightarrow> Some (refreshed [])
         | Some (QuestArray newQuestsData) \<Rightarrow>
             Some (refreshed (map (\<lambda>q. q\<lparr>progress := 0\<rparr>) newQuestsData))
         | Some _ \<Rightarrow> None)"

text \<open>
  The mount effect (lines 472-523) on a freshly loaded page: the state is \<open>null\<close> and
  \<open>isLoading\<close> is \<open>true\<close> until the effect says otherwise. \<open>updateAndSaveState\<close> sets
  the state and writes it to the slot; \<open>setUserState\<close> only sets the state.
\<close>

definition loadEffect :: "parser \<Rightarrow> timestamp \<Rightarrow> timestamp \<Rightarrow> GenerateResult \<Rightarrow> Slot \<Rightarrow> App" where
  "loadEffect parseAiJson now now' response savedState =
     (case savedState of
        Absent \<Rightarrow> \<lparr>userState = None, storage = Absent, isLoading = False\<rparr>
      | Corrupt \<Rightarrow> \<lparr>userState = None, storage = Absent, isLoading = False\<rparr>
      | Stored parsedState \<Rightarrow>
          if dayChanged now parsedState then
            (case generateNewQuests parseAiJson now' response parsedState of
               Some newState \<Rightarrow>
                 \<lparr>userState = Some newState, storage = Stored newState, isLoading = False\<rparr>
             | None \<Rightarrow>
                 \<lparr>userState = None, storage = Stored parsedState, isLoading = True\<rparr>)
          else \<lparr>userState = Some parsedState, storage = Stored parsedState,
                isLoading = False\<rparr>)"

subsection \<open>Onboarding\<close>

text \<open>
  The last branch of \<open>handleNext\<close> (lines 150-196): the initial record, or nothing when
  the oracle failed (the alert) or answered with a value that has no \<open>quests\<close> array
  (the call throws).
\<close>

definition initialState :: "parser \<Rightarrow> string list \<Rightarrow> timestamp \<Rightarrow> GenerateResult \<Rightarrow> UserState option" where
  "initialState parseAiJson newAnswers now response =
     (case getAiResponse parseAiJson response of
        Some (Assessment aiDifficulty aiQuests) \<Rightarrow>
          Some \<lparr>level = 1, xp = 0, difficulty = aiDifficulty,
                quests = map (\<lambda>q. q\<lparr>progress := 0\<rparr>) aiQuests,
                skills = [],
                name = (case newAnswers of
                          [] \<Rightarrow> ''Player''
                        | a # _ \<Rightarrow> if a = [] then ''Player'' else a),
                lastLogin = now, dailySteps = 0, dailyDistance = 0\<rparr>
      | _ \<Rightarrow> None)"

subsection \<open>The operations a user can trigger\<close>

text \<open>
  \<open>Mount\<close> is a page load, \<open>SubmitQuestionnaire\<close> the last answer of the questionnaire
  followed by \<open>handleCompleteQuestionnaire\<close>, \<open>QuestUpdate\<close> a call of
  \<open>updateQuestProgress\<close> (a logged count or a position fix), \<open>ResetProgress\<close> the
  reset button, which removes the item and reloads the page; the reloaded page then
  mounts.
\<close>

datatype Event =
    Mount timestamp timestamp GenerateResult
  | SubmitQuestionnaire "string list" timestamp GenerateResult
  | QuestUpdate string real
  | ResetProgress

text \<open>\<open>updateAndSaveState\<close> (lines 386-394): a new state that is not \<open>null\<close> is saved.\<close>

definition updateAndSaveState :: "(UserState option \<Rightarrow> UserState option) \<Rightarrow> App \<Rightarrow> App" where
  "updateAndSaveState updater app =
     (let newState = updater (userState app)
      in case newState of
           None \<Rightarrow> app\<lparr>userState := None\<rparr>
         | Some s \<Rightarrow> app\<lparr>userState := Some s, storage := Stored s\<rparr>)"

fun appStep :: "parser \<Rightarrow> Event \<Rightarrow> App \<Rightarrow> App" where
  "appStep parseAiJson (Mount now now' response) app =
     loadEffect parseAiJson now now' response (storage app)"
| "appStep parseAiJson (SubmitQuestionnaire newAnswers now response) app =
     (case initialState parseAiJson newAnswers now response of
        None \<Rightarrow> app
      | Some s \<Rightarrow> updateAndSaveState (\<lambda>_. Some s) app)"
| "appStep parseAiJson (QuestUpdate questId v) app =
     updateAndSaveState (map_option (updateQuestProgress questId v)) app"
| "appStep parseAiJson ResetProgress app =
     \<lparr>userState = None, storage = Absent, isLoading = True\<rparr>"

fun run :: "parser \<Rightarrow> Event list \<Rightarrow> App \<Rightarrow> App" where
  "run parseAiJson [] app = app"
| "run parseAiJson (e # es) app = run parseAiJson es (appStep parseAiJson e app)"

text \<open>A fresh installation: nothing stored, the page not yet loaded.\<close>

definition freshInstall :: App where
  "freshInstall = \<lparr>userState = None, storage = Absent, isLoading = True\<rparr>"

text \<open>Both daily counters of a record are zero; the same for the record an application
  holds in memory and the one in its slot.\<close>

definition countersZero :: "UserState \<Rightarrow> bool" where
  "countersZero s \<longleftrightarrow> dailySteps s = 0 \<and> dailyDistance s = 0"

definition appCountersZero :: "App \<Rightarrow> bool" where
  "appCountersZero app \<longleftrightarrow>
     (case userState app of None \<Rightarrow> True | Some s \<Rightarrow> countersZero s) \<and>
     (case storage app of Stored s \<Rightarrow> countersZero s | _ \<Rightarrow> True)"

section \<open>Example inputs\<close>

definition demoQuest :: Quest where
  "demoQuest = \<lparr>quest_id = ''q1'', title = ''Push-ups'', description = ''Do 20 push-ups'',
     quest_xp = 300, quest_type = Static, goal = 20, progress = 5\<rparr>"

definition scenarioQuest :: Quest where
  "scenarioQuest = \<lparr>quest_id = ''q2'', title = ''Run'', description = ''Run 3 km'',
     quest_xp = 250, quest_type = Distance, goal = 3, progress = 0\<rparr>"

definition doneQuest :: Quest where
  "doneQuest = \<lparr>quest_id = ''q3'', title = ''Squats'', description = ''Do 10 squats'',
     quest_xp = 40, quest_type = Static, goal = 10, progress = 10\<rparr>"

definition demoState :: UserState where
  "demoState = \<lparr>level = 1, xp = 0, difficulty = ''E'',
     quests = [demoQuest, scenarioQuest, doneQuest], skills = [],
     name = ''Player'', lastLogin = 1704067200000, dailySteps = 0, dailyDistance = 0\<rparr>"

text \<open>A parser that knows two texts, and three instants: 2024-01-01 00:00 UTC is the
  \<open>lastLogin\<close> of \<open>demoState\<close>; the others are 01:00 UTC of that day and 08:00 UTC of
  the next.\<close>

definition demoParser :: parser where
  "demoParser text =
     (if text = ''batch'' then Some (QuestArray [demoQuest, scenarioQuest])
      else if text = ''assessment'' then Some (Assessment ''E'' [demoQuest])
      else None)"

definition sameDay :: timestamp where
  "sameDay = 1704070800000"

definition nextDay :: timestamp where
  "nextDay = 1704182400000"

text \<open>Two pairs of instants seen from a zone two hours ahead of UTC: 22:30 UTC of
  2024-01-01 and 08:00 UTC of 2024-01-02 are both on the local 2 January; 21:00 UTC and
  23:00 UTC of 2024-01-01 are on the local 1 and 2 January.\<close>

definition lateEvening :: timestamp where
  "lateEvening = 1704148200000"

definition beforeLocalMidnight :: timestamp where
  "beforeLocalMidnight = 1704142800000"

definition afterLocalMidnight :: timestamp where
  "afterLocalMidnight = 1704150000000"

text \<open>A session: first page load, the questionnaire, one quest completed, and a page
  load on the next day; and the record it ends with.\<close>

definition demoSession :: "Event list" where
  "demoSession =
     [Mount sameDay sameDay Rejected,
      SubmitQuestionnaire [''Jin''] sameDay (ResponseText ''assessment''),
      QuestUpdate ''q1'' 20,
      Mount nextDay (nextDay + 3000) (ResponseText ''batch'')]"

definition demoSessionEnd :: UserState where
  "demoSessionEnd = \<lparr>level = 3, xp = 0, difficulty = ''E'',
     quests = [demoQuest\<lparr>progress := 0\<rparr>, scenarioQuest\<lparr>progress := 0\<rparr>], skills = [],
     name = ''Jin'', lastLogin = nextDay + 3000, dailySteps = 0, dailyDistance = 0\<rparr>"

text \<open>
  Records with every number a double. \<open>demoStateD\<close> is a new player with one quest worth
  300. \<open>halfStateD\<close> has a run of one kilometre half done; the distance that will be
  reported for it is \<open>1/2 - 2^(-54)\<close> kilometres, which is a double. \<open>bigStateD\<close> is at
  level \<open>2^52\<close> with experience 1 and has a quest worth \<open>2^53\<close>.
\<close>

definition demoQuestD :: QuestD where
  "demoQuestD = \<lparr>q_id = ''q1'', q_title = ''Push-ups'', q_description = ''Do 20 push-ups'',
     q_xp = Fin 300, q_type = Static, q_goal = Fin 20, q_progress = Fin 5\<rparr>"

definition demoStateD :: UserStateD where
  "demoStateD = \<lparr>u_level = Fin 1, u_xp = Fin 0, u_difficulty = ''E'',
     u_quests = [demoQuestD], u_skills = [], u_name = ''Player'',
     u_lastLogin = 1704067200000, u_dailySteps = Fin 0, u_dailyDistance = Fin 0\<rparr>"




definition bigQuestD :: QuestD where
  "bigQuestD = \<lparr>q_id = ''big'', q_title = ''Marathon'', q_description = ''One step'',
     q_xp = Fin (2 ^ 53), q_type = Static, q_goal = Fin 1, q_progress = Fin 0\<rparr>"

definition bigStateD :: UserStateD where
  "bigStateD = \<lparr>u_level = Fin (2 ^ 52), u_xp = Fin 1, u_difficulty = ''S'',
     u_quests = [bigQuestD], u_skills = [], u_name = ''Player'',
     u_lastLogin = 1704067200000, u_dailySteps = Fin 0, u_dailyDistance = Fin 0\<rparr>"

section \<open>Properties of rounding to the nearest double\<close>

lemma binade_eq:
  assumes "2 powi e \<le> \<bar>x\<bar>" and "\<bar>x\<bar> < 2 powi (e + 1)"
  shows "binade x = e"
proof -
  have "(0::real) < 2 powi e" by simp
  with assms(1) have pos: "0 < \<bar>x\<bar>" by linarith
  have p: "(2::real) powi k = 2 powr (of_int k)" for k :: int
    by (simp add: powr_real_of_int')
  have "of_int e \<le> log 2 \<bar>x\<bar>"
    using assms(1) pos by (simp add: p le_log_iff)
  moreover have "log 2 \<bar>x\<bar> < of_int e + 1"
    using assms(2) pos by (simp add: p log_less_iff)
  ultimately show ?thesis unfolding binade_def by linarith
qed

lemma roundEven_int [simp]: "roundEven (of_int k) = k"
  by (simp add: roundEven_def)

lemma roundEven_ge_floor: "\<lfloor>y\<rfloor> \<le> roundEven y"
  by (simp add: roundEven_def Let_def)

lemma roundEven_near:
  assumes "of_int k - 1 / 2 < y" and "y < of_int k + 1 / 2"
  shows "roundEven y = k"
proof -
  have "\<lfloor>y\<rfloor> = k \<or> \<lfloor>y\<rfloor> = k - 1" using assms by linarith
  then show ?thesis
  proof
    assume f: "\<lfloor>y\<rfloor> = k"
    then have "y - of_int k < 1 / 2" using assms by linarith
    with f show ?thesis by (simp add: roundEven_def)
  next
    assume f: "\<lfloor>y\<rfloor> = k - 1"
    then have "1 / 2 < y - of_int (k - 1)" using assms by simp
    with f show ?thesis by (simp add: roundEven_def Let_def)
  qed
qed


lemma roundEven_tie_down:
  assumes "y = of_int k + 1 / 2" and "even k"
  shows "roundEven y = k"
proof -
  have f: "\<lfloor>y\<rfloor> = k" using assms(1) by linarith
  have "y - of_int k = 1 / 2" using assms(1) by simp
  with f assms(2) show ?thesis by (simp add: roundEven_def Let_def)
qed

text \<open>The rounding of a real whose binade is known.\<close>

lemma fl_eval:
  assumes "2 powi e \<le> \<bar>x\<bar>" and "\<bar>x\<bar> < 2 powi (e + 1)" and "- 1022 \<le> e"
    and "roundEven (x / 2 powi (e - 52)) = k"
    and "\<bar>of_int k * 2 powi (e - 52)\<bar> < (2::real) ^ 1024"
  shows "fl x = Fin (of_int k * 2 powi (e - 52))"
proof -
  have "(0::real) < 2 powi e" by simp
  with assms(1) have "0 < \<bar>x\<bar>" by linarith
  then have "x \<noteq> 0" by auto
  moreover have "ulp x = 2 powi (e - 52)"
    using binade_eq[OF assms(1,2)] assms(3) by (simp add: ulp_def max_def)
  ultimately show ?thesis
    using assms(4,5) by (simp add: fl_def Let_def mult.commute abs_less_iff not_le)
qed

lemma binade_bounds:
  assumes "x \<noteq> 0"
  shows "2 powi (binade x) \<le> \<bar>x\<bar> \<and> \<bar>x\<bar> < 2 powi (binade x + 1)"
proof -
  have pos: "0 < \<bar>x\<bar>" using assms by simp
  have p: "(2::real) powi k = 2 powr (of_int k)" for k :: int
    by (simp add: powr_real_of_int')
  have "of_int (binade x) \<le> log 2 \<bar>x\<bar>" "log 2 \<bar>x\<bar> < of_int (binade x + 1)"
    unfolding binade_def by linarith+
  then show ?thesis using pos by (simp add: p le_log_iff log_less_iff)
qed

lemma binade_mono:
  assumes "0 < r" and "r \<le> y"
  shows "binade r \<le> binade y"
proof -
  have "log 2 \<bar>r\<bar> \<le> log 2 \<bar>y\<bar>" using assms by simp
  then show ?thesis unfolding binade_def by (rule floor_mono)
qed

lemma powi_less_exp:
  assumes "(2::real) powi a < 2 powi b"
  shows "a < b"
proof (rule ccontr)
  assume "\<not> a < b"
  then have "b \<le> a" by simp
  then have "(2::real) powi b \<le> 2 powi a" by (intro power_int_increasing) simp_all
  with assms show False by simp
qed

lemma powi_split:
  assumes "p \<le> k"
  shows "(2::real) powi k = of_int (2 ^ nat (k - p)) * 2 powi p"
proof -
  have "(2::real) powi k = 2 powi ((k - p) + p)" by simp
  also have "\<dots> = 2 powi (k - p) * 2 powi p" by (subst power_int_add) simp_all
  also have "2 powi (k - p) = (2::real) ^ nat (k - p)"
    using assms by (simp add: power_int_nonneg_exp)
  finally show ?thesis by simp
qed

text \<open>A real \<open>m * 2^k\<close> with \<open>|m| < 2^53\<close> and \<open>k \<ge> -1074\<close> is a double: rounding returns it.\<close>

lemma fl_rep:
  assumes "x = of_int m * 2 powi k" and "\<bar>m\<bar> < 2 ^ 53" and "- 1074 \<le> k"
    and "\<bar>x\<bar> < 2 ^ 1024"
  shows "fl x = Fin x"
proof (cases "x = 0")
  case True
  then show ?thesis by (simp add: fl_def)
next
  case False
  let ?p = "max (binade x) (- 1022) - 52"
  have "\<bar>x\<bar> = of_int \<bar>m\<bar> * 2 powi k"
    by (simp add: assms(1) abs_mult)
  also have "\<dots> < 2 ^ 53 * 2 powi k"
  proof -
    have "real_of_int \<bar>m\<bar> < 2 ^ 53" using assms(2) by (metis of_int_less_numeral_power_cancel_iff)
    then show ?thesis by (intro mult_strict_right_mono) simp_all
  qed
  also have "\<dots> = 2 powi (53 + k)" by (subst power_int_add) simp_all
  finally have "2 powi (binade x) < (2::real) powi (53 + k)"
    using binade_bounds[OF False] by linarith
  then have "binade x < 53 + k" by (rule powi_less_exp)
  with assms(3) have pk: "?p \<le> k" by simp
  define u where "u = (2::real) powi ?p"
  define j where "j = m * 2 ^ nat (k - ?p)"
  have upos: "0 < u" by (simp add: u_def)
  have "x = of_int m * (of_int (2 ^ nat (k - ?p)) * 2 powi ?p)"
    using powi_split[OF pk] assms(1) by simp
  then have xu: "x = of_int j * u" by (simp add: j_def u_def)
  have "of_int j * u / u = real_of_int j" using upos by simp
  then have "x / u = of_int j" by (simp only: xu)
  then have "roundEven (x / u) = j" by (simp only: roundEven_int)
  then have "u * of_int (roundEven (x / u)) = x" by (simp only: xu mult.commute)
  moreover have "ulp x = u" by (simp add: ulp_def u_def)
  ultimately have "ulp x * of_int (roundEven (x / ulp x)) = x" by simp
  with assms(4) False show ?thesis by (simp add: fl_def Let_def abs_less_iff)
qed

text \<open>So is every integer up to \<open>2^53\<close> in absolute value.\<close>

lemma fl_int:
  assumes "\<bar>n\<bar> \<le> 2 ^ 53"
  shows "fl (of_int n) = Fin (of_int n)"
proof (cases "\<bar>n\<bar> < 2 ^ 53")
  case True
  have "\<bar>real_of_int n\<bar> < 2 ^ 53" using True by (metis of_int_abs of_int_less_numeral_power_cancel_iff)
  then have "\<bar>real_of_int n\<bar> < 2 ^ 1024" by (rule less_trans) simp
  then show ?thesis using True by (intro fl_rep[of _ n 0]) simp_all
next
  case False
  with assms have "\<bar>n\<bar> = 2 ^ 53" by simp
  then consider "n = 2 ^ 53" | "n = - (2 ^ 53)" by (cases "0 \<le> n") auto
  then show ?thesis
  proof cases
    case 1
    show ?thesis unfolding 1 by (intro fl_rep[of _ 1 53]) simp_all
  next
    case 2
    show ?thesis unfolding 2 by (intro fl_rep[of _ "- 1" 53]) simp_all
  qed
qed

text \<open>Rounding does not go below a positive double that the argument is not below.\<close>

lemma fl_lower:
  assumes "0 < r" and "fl r = Fin r" and "r \<le> y"
  shows "fl y = PInf \<or> (\<exists>z. fl y = Fin z \<and> r \<le> z)"
proof -
  have rn: "r \<noteq> 0" and yn: "y \<noteq> 0" and ypos: "0 < y" using assms by simp_all
  let ?pr = "max (binade r) (- 1022) - 52"
  let ?p = "max (binade y) (- 1022) - 52"
  let ?y' = "ulp y * of_int (roundEven (y / ulp y))"
  define ur where "ur = (2::real) powi ?pr"
  define u where "u = (2::real) powi ?p"
  have upos: "0 < u" "0 < ur" by (simp_all add: u_def ur_def)
  have le: "?pr \<le> ?p" using binade_mono[OF assms(1,3)] by simp
  obtain q where q: "r = ur * of_int q"
  proof -
    from assms(2) rn have "Fin (ulp r * of_int (roundEven (r / ulp r))) = Fin r"
      by (auto simp: fl_def Let_def split: if_splits)
    then have "r = ur * of_int (roundEven (r / ulp r))" by (simp add: ulp_def ur_def)
    then show ?thesis by (rule that)
  qed
  have uy: "ulp y = u" by (simp add: ulp_def u_def)
  have fl_floor: "u * of_int \<lfloor>y / u\<rfloor> \<le> ?y'"
    unfolding uy using roundEven_ge_floor[of "y / u"] upos
    by (intro mult_left_mono) simp_all
  have "r \<le> ?y'"
  proof (cases "?pr = ?p")
    case True
    then have uu: "ur = u" by (simp add: u_def ur_def)
    have "u * of_int q / u = real_of_int q" using upos by simp
    then have "of_int q = r / u" by (simp only: q uu)
    also have "\<dots> \<le> y / u" using assms(3) upos by (intro divide_right_mono) simp_all
    finally have "q \<le> \<lfloor>y / u\<rfloor>" by (simp only: le_floor_iff)
    then have "u * of_int q \<le> u * of_int \<lfloor>y / u\<rfloor>"
      using upos by (intro mult_left_mono) simp_all
    then have "r \<le> u * of_int \<lfloor>y / u\<rfloor>" by (simp only: q uu)
    with fl_floor show ?thesis by linarith
  next
    case False
    with le have lt: "?pr < ?p" by linarith
    with binade_mono[OF assms(1,3)] have b: "binade r < binade y" "- 1022 < binade y"
      by linarith+
    then have p: "?p = binade y - 52" by simp
    have "r < 2 powi (binade r + 1)" using binade_bounds[OF rn] assms(1) by simp
    also have "\<dots> \<le> 2 powi (binade y)" using b(1) by (intro power_int_increasing) simp_all
    finally have r2: "r < 2 powi (binade y)" .
    have "(2::real) powi (binade y) = of_int (2 ^ nat (binade y - (binade y - 52))) * 2 powi (binade y - 52)"
      by (rule powi_split) simp
    then have e: "(2::real) powi (binade y) = u * of_int (2 ^ 52)" using p by (simp add: u_def)
    have "u * of_int (2 ^ 52) / u = real_of_int (2 ^ 52)" using upos by simp
    then have "real_of_int (2 ^ 52) = 2 powi (binade y) / u" by (simp only: e)
    also have "\<dots> \<le> y / u"
      using binade_bounds[OF yn] ypos upos by (intro divide_right_mono) simp_all
    finally have "(2 ^ 52 :: int) \<le> \<lfloor>y / u\<rfloor>" by (simp only: le_floor_iff)
    then have "u * of_int (2 ^ 52) \<le> u * real_of_int \<lfloor>y / u\<rfloor>"
      using upos by (intro mult_left_mono) simp_all
    with e r2 fl_floor show ?thesis by linarith
  qed
  then have "0 < ?y'" using assms(1) by linarith
  with \<open>r \<le> ?y'\<close> yn show ?thesis by (auto simp: fl_def Let_def)
qed

text \<open>
  Three roundings that lose something: \<open>2^53 + 1\<close> lies halfway between two doubles
  and goes to the even one, \<open>2^53\<close>; \<open>1 - 2^(-54)\<close> lies halfway between
  \<open>1 - 2^(-53)\<close> and \<open>1\<close> and goes to \<open>1\<close>; taking \<open>100 * 2^53\<close> from \<open>2^1000\<close>
  changes nothing, the doubles below \<open>2^1000\<close> being \<open>2^947\<close> apart.
\<close>

lemma fl_tie_2_53: "fl (2 ^ 53 + 1) = Fin (2 ^ 53)"
proof -
  have "roundEven ((2 ^ 53 + 1) / 2 powi (53 - 52)) = 2 ^ 52"
    by (rule roundEven_tie_down) simp_all
  from fl_eval[of 53 "2 ^ 53 + 1", OF _ _ _ this] show ?thesis by simp
qed


lemma fl_absorb: "fl (2 ^ 1000 - 100 * 2 ^ 53) = Fin (2 ^ 1000)"
proof -
  have "roundEven ((2 ^ 1000 - 100 * 2 ^ 53) / 2 powi (999 - 52)) = 2 ^ 53"
    by (rule roundEven_near) (simp_all add: field_simps)
  from fl_eval[of 999 "2 ^ 1000 - 100 * 2 ^ 53", OF _ _ _ this] show ?thesis
    by simp
qed

section \<open>Properties of the progression engine\<close>

subsection \<open>The quest pass\<close>

lemma questCallback_fst:
  "fst (questCallback questId v q acc) =
     (if quest_id q = questId \<and> progress q < goal q
      then q\<lparr>progress := min (progress q + v) (goal q)\<rparr> else q)"
  by (simp add: questCallback_def Let_def)

lemma questCallback_snd:
  "snd (questCallback questId v q acc) = acc + (if awarded questId v q then quest_xp q else 0)"
  by (simp add: questCallback_def awarded_def Let_def)

lemma mapQuests_fst:
  "fst (mapQuests questId v qs acc) = map (advance questId v) qs"
  by (induction qs arbitrary: acc) (simp_all add: split_beta questCallback_fst advance_def)

lemma mapQuests_snd:
  "snd (mapQuests questId v qs acc) =
     acc + (\<Sum>q\<leftarrow>qs. if awarded questId v q then quest_xp q else 0)"
  by (induction qs arbitrary: acc) (simp_all add: split_beta questCallback_snd)

lemma xpGainedOf_sum:
  "xpGainedOf questId v qs = (\<Sum>q\<leftarrow>qs. if awarded questId v q then quest_xp q else 0)"
  by (simp add: xpGainedOf_def mapQuests_snd)

lemma advance_eq:
  "advance questId v q =
     (if quest_id q = questId \<and> progress q < goal q
      then q\<lparr>progress := min (progress q + v) (goal q)\<rparr> else q)"
  by (simp add: advance_def questCallback_fst)

lemma advance_complete: "goal q \<le> progress q \<Longrightarrow> advance questId v q = q"
  by (simp add: advance_eq)

lemma advance_fix:
  "progress (advance questId v q) = progress q \<Longrightarrow> advance questId v q = q"
  by (simp add: advance_eq split: if_splits)

lemma awarded_iff:
  "awarded questId v q \<longleftrightarrow>
     quest_id q = questId \<and> progress q < goal q \<and> goal q \<le> progress q + v"
  by (auto simp: awarded_def)

lemma not_awarded_complete: "goal q \<le> progress q \<Longrightarrow> \<not> awarded questId v q"
  by (simp add: awarded_def)

lemma sum_list_none:
  "\<forall>q\<in>set qs. \<not> P q \<Longrightarrow> (\<Sum>q\<leftarrow>qs. if P q then f q else (0::int)) = 0"
  by (induction qs) simp_all

lemma zip_map_same:
  "list_all (\<lambda>(q, p). progress q = progress p) (zip (map f qs) qs) \<longleftrightarrow>
     (\<forall>q\<in>set qs. progress (f q) = progress q)"
  by (induction qs) simp_all

lemma updateQuestProgress_unfold:
  "updateQuestProgress questId v s =
     (if xpGainedOf questId v (quests s) = 0 \<and>
         (\<forall>q\<in>set (quests s). progress (advance questId v q) = progress q)
      then s
      else s\<lparr>quests := map (advance questId v) (quests s),
             xp := fst (levelUp (xp s + xpGainedOf questId v (quests s)) (level s)),
             level := snd (levelUp (xp s + xpGainedOf questId v (quests s)) (level s))\<rparr>)"
proof -
  have m: "mapQuests questId v (quests s) 0 =
      (map (advance questId v) (quests s), xpGainedOf questId v (quests s))"
    using mapQuests_fst[of questId v "quests s" 0]
    by (simp add: prod_eq_iff xpGainedOf_def)
  show ?thesis
    unfolding updateQuestProgress_def m
    by (simp add: noChange_def zip_map_same split_beta)
qed

lemma quests_update:
  "quests (updateQuestProgress questId v s) = map (advance questId v) (quests s)"
proof -
  have "(\<forall>q\<in>set (quests s). progress (advance questId v q) = progress q) \<Longrightarrow>
        map (advance questId v) (quests s) = quests s"
    by (simp add: advance_fix map_idI)
  then show ?thesis by (auto simp: updateQuestProgress_unfold)
qed

lemma update_keeps_rest:
  "difficulty (updateQuestProgress questId v s) = difficulty s"
  "skills (updateQuestProgress questId v s) = skills s"
  "name (updateQuestProgress questId v s) = name s"
  "lastLogin (updateQuestProgress questId v s) = lastLogin s"
  "dailySteps (updateQuestProgress questId v s) = dailySteps s"
  "dailyDistance (updateQuestProgress questId v s) = dailyDistance s"
  by (simp_all add: updateQuestProgress_unfold)


subsection \<open>The level-up loop\<close>

lemma sum_int_peel:
  fixes f :: "int \<Rightarrow> int"
  assumes "a < b"
  shows "sum f {a..<b} = f a + sum f {a + 1..<b}"
proof -
  have "{a..<b} = insert a {a + 1..<b}" using assms by auto
  then show ?thesis by simp
qed

lemma levelUp_spec:
  "levelUp x l = (e, l') \<Longrightarrow>
     e < XP_PER_LEVEL * l' \<and> l \<le> l' \<and> e + (\<Sum>k = l..<l'. XP_PER_LEVEL * k) = x"
proof (induction x l arbitrary: e l' rule: levelUp.induct)
  case (1 x l)
  show ?case
  proof (cases "x \<ge> XP_PER_LEVEL * l")
    case True
    with "1.prems" have r: "levelUp (x - XP_PER_LEVEL * l) (l + 1) = (e, l')"
      by (simp add: levelUp.simps[of x l])
    from "1.IH"[OF True r] have ih: "e < XP_PER_LEVEL * l'" "l + 1 \<le> l'"
      "e + (\<Sum>k = l + 1..<l'. XP_PER_LEVEL * k) = x - XP_PER_LEVEL * l" by auto
    have "l < l'" using ih(2) by simp
    from sum_int_peel[OF this, of "\<lambda>k. XP_PER_LEVEL * k"] ih show ?thesis by simp
  next
    case False
    with "1.prems" show ?thesis by (simp add: levelUp.simps[of x l])
  qed
qed

lemma levelUp_nonneg:
  "levelUp x l = (e, l') \<Longrightarrow> 1 \<le> l \<Longrightarrow> 0 \<le> x \<Longrightarrow> 0 \<le> e"
proof (induction x l arbitrary: e l' rule: levelUp.induct)
  case (1 x l)
  show ?case
  proof (cases "x \<ge> XP_PER_LEVEL * l")
    case True
    with "1.prems" have r: "levelUp (x - XP_PER_LEVEL * l) (l + 1) = (e, l')"
      by (simp add: levelUp.simps[of x l])
    from "1.IH"[OF True r] True "1.prems" show ?thesis by simp
  next
    case False
    with "1.prems" show ?thesis by (simp add: levelUp.simps[of x l])
  qed
qed

lemma levelUp_rounds:
  "levelUp x l = (e, l') \<Longrightarrow> 1 \<le> l \<Longrightarrow> XP_PER_LEVEL * (l' - l) \<le> x - e"
proof (induction x l arbitrary: e l' rule: levelUp.induct)
  case (1 x l)
  show ?case
  proof (cases "x \<ge> XP_PER_LEVEL * l")
    case True
    with "1.prems" have r: "levelUp (x - XP_PER_LEVEL * l) (l + 1) = (e, l')"
      by (simp add: levelUp.simps[of x l])
    from "1.IH"[OF True r] "1.prems"(2)
    have "XP_PER_LEVEL * (l' - (l + 1)) \<le> x - XP_PER_LEVEL * l - e" by simp
    moreover have "XP_PER_LEVEL \<le> XP_PER_LEVEL * l"
      using "1.prems"(2) by (simp add: XP_PER_LEVEL_def)
    ultimately show ?thesis by (simp add: algebra_simps)
  next
    case False
    with "1.prems" show ?thesis by (simp add: levelUp.simps[of x l])
  qed
qed

lemma levelUp_250: "levelUp 250 1 = (150, 2)"
  by (simp add: levelUp.simps XP_PER_LEVEL_def)

lemma levelUp_300: "levelUp 300 1 = (0, 3)"
  by (simp add: levelUp.simps XP_PER_LEVEL_def)

section \<open>Properties of the progression engine on doubles\<close>

subsection \<open>The level-up loop\<close>

lemma numGe_int [simp]: "numGe (Fin a) (Fin b) \<longleftrightarrow> b \<le> a"
  by auto

text \<open>
  The threshold \<open>100 * l\<close> is exact as long as it is at most \<open>2^53\<close>; beyond that it
  is rounded, but never to a double below \<open>2^53 + 2\<close>.
\<close>

lemma threshold_exact:
  assumes "1 \<le> l" and "100 * l \<le> (2::int) ^ 53"
  shows "numMul (Fin 100) (Fin (of_int l)) = Fin (of_int (100 * l))"
proof -
  have "fl (of_int (100 * l)) = Fin (of_int (100 * l))"
    using assms by (intro fl_int) simp
  then show ?thesis by simp
qed

lemma threshold_large:
  assumes "(2::int) ^ 53 < 100 * l" and "x \<le> (2::int) ^ 53"
  shows "\<not> numGe (Fin (of_int x)) (numMul (Fin 100) (Fin (of_int l)))"
proof -
  have "(2::int) ^ 53 = 2 * 2 ^ 52" by simp
  with assms(1) have "(2::int) ^ 52 < 50 * l" by linarith
  then have "(2::int) ^ 52 + 1 \<le> 50 * l" by linarith
  then have "2 ^ 53 + 2 \<le> 100 * l" by simp
  then have "real_of_int (2 ^ 53 + 2) \<le> real_of_int (100 * l)" by (simp only: of_int_le_iff)
  then have le: "(2 ^ 53 + 2 :: real) \<le> 100 * of_int l" by simp
  have rep: "fl (2 ^ 53 + 2) = Fin (2 ^ 53 + 2)"
    by (rule fl_rep[of _ "2 ^ 52 + 1" 1]) simp_all
  from assms(2) have "real_of_int x \<le> real_of_int (2 ^ 53)" by (simp only: of_int_le_iff)
  then have x: "real_of_int x \<le> 2 ^ 53" by simp
  from fl_lower[OF _ rep le] x show ?thesis by auto
qed

text \<open>
  On a whole level \<open>l \<ge> 1\<close> and a whole total \<open>0 \<le> x \<le> 2^53\<close> the loop on doubles
  returns, with the result of the exact loop: no subtraction, increment or threshold on
  the way rounds.
\<close>

lemma levelUpD_safe:
  "1 \<le> l \<Longrightarrow> 0 \<le> x \<Longrightarrow> x \<le> 2 ^ 53 \<Longrightarrow>
     levelUpD (Fin (of_int x)) (Fin (of_int l)) =
       Some (Fin (of_int (fst (levelUp x l))), Fin (of_int (snd (levelUp x l))))"
proof (induction x l rule: levelUp.induct)
  case (1 x l)
  show ?case
  proof (cases "100 * l \<le> x")
    case True
    with "1.prems" have small: "100 * l \<le> 2 ^ 53" by linarith
    have t: "numMul (Fin 100) (Fin (of_int l)) = Fin (of_int (100 * l))"
      using "1.prems"(1) small by (rule threshold_exact)
    have "fl (of_int (x - 100 * l)) = Fin (of_int (x - 100 * l))"
      using True "1.prems" by (intro fl_int) simp
    then have s: "numSub (Fin (of_int x)) (Fin (of_int (100 * l))) = Fin (of_int (x - 100 * l))"
      by (simp add: numSub_def)
    have "fl (of_int (l + 1)) = Fin (of_int (l + 1))"
      using small "1.prems"(1) by (intro fl_int) simp
    then have a: "numAdd (Fin (of_int l)) (Fin 1) = Fin (of_int (l + 1))" by simp
    have g: "numGe (Fin (of_int x)) (Fin (of_int (100 * l)))" using True by simp
    have ih: "levelUpD (Fin (of_int (x - 100 * l))) (Fin (of_int (l + 1))) =
        Some (Fin (of_int (fst (levelUp (x - 100 * l) (l + 1)))),
              Fin (of_int (snd (levelUp (x - 100 * l) (l + 1)))))"
      using "1.IH" True "1.prems" by (simp add: XP_PER_LEVEL_def)
    have "levelUp x l = levelUp (x - 100 * l) (l + 1)"
      using True by (subst levelUp.simps) (simp add: XP_PER_LEVEL_def)
    then show ?thesis
      by (subst levelUpD.simps) (simp only: t g s a ih if_True)
  next
    case False
    have ng: "\<not> numGe (Fin (of_int x)) (numMul (Fin 100) (Fin (of_int l)))"
    proof (cases "100 * l \<le> 2 ^ 53")
      case True
      from threshold_exact[OF "1.prems"(1) True] False show ?thesis by simp
    next
      case False
      then have "2 ^ 53 < 100 * l" by simp
      then show ?thesis using "1.prems"(3) by (rule threshold_large)
    qed
    have "levelUp x l = (x, l)"
      using False by (subst levelUp.simps) (simp add: XP_PER_LEVEL_def)
    then show ?thesis
      by (subst levelUpD.simps) (simp only: ng if_False fst_conv snd_conv)
  qed
qed

text \<open>
  At the total \<open>2^1000\<close> and the level \<open>2^53\<close> one round of the loop changes neither:
  the subtraction is absorbed and so is the increment. The loop does not return.
\<close>

lemma stuck_threshold: "numMul (Fin 100) (Fin (2 ^ 53)) = Fin (100 * 2 ^ 53)"
proof -
  have "fl (100 * 2 ^ 53) = Fin (100 * 2 ^ 53)"
    by (rule fl_rep[of _ 25 55]) simp_all
  then show ?thesis by simp
qed

lemma stuck_step:
  "numGe (Fin (2 ^ 1000)) (numMul (Fin 100) (Fin (2 ^ 53)))"
  "numSub (Fin (2 ^ 1000)) (numMul (Fin 100) (Fin (2 ^ 53))) = Fin (2 ^ 1000)"
  "numAdd (Fin (2 ^ 53)) (Fin 1) = Fin (2 ^ 53)"
proof -
  show "numGe (Fin (2 ^ 1000)) (numMul (Fin 100) (Fin (2 ^ 53)))"
    unfolding stuck_threshold by simp
  show "numSub (Fin (2 ^ 1000)) (numMul (Fin 100) (Fin (2 ^ 53))) = Fin (2 ^ 1000)"
    unfolding stuck_threshold numSub_def using fl_absorb by simp
  show "numAdd (Fin (2 ^ 53)) (Fin 1) = Fin (2 ^ 53)"
    using fl_tie_2_53 by simp
qed

lemma levelUpD_stuck: "levelUpD (Fin (2 ^ 1000)) (Fin (2 ^ 53)) = None"
proof (cases "levelUpD (Fin (2 ^ 1000)) (Fin (2 ^ 53))")
  case None
  then show ?thesis .
next
  case (Some r)
  define stuck where "stuck = (Fin (2 ^ 1000), Fin (2 ^ 53))"
  have "(\<lambda>a b (y :: number \<times> number). (a, b) \<noteq> stuck) (Fin (2 ^ 1000)) (Fin (2 ^ 53)) r"
  proof (rule levelUpD.raw_induct[OF _ Some])
    fix f :: "number \<Rightarrow> number \<Rightarrow> (number \<times> number) option" and a b y
    assume ih: "\<And>a b y. f a b = Some y \<Longrightarrow> (a, b) \<noteq> stuck"
      and eq: "(if numGe a (numMul (Fin 100) b)
                then f (numSub a (numMul (Fin 100) b)) (numAdd b (Fin 1))
                else Some (a, b)) = Some y"
    show "(a, b) \<noteq> stuck"
    proof
      assume "(a, b) = stuck"
      then have ab: "a = Fin (2 ^ 1000)" "b = Fin (2 ^ 53)" by (simp_all add: stuck_def)
      from eq have "f (Fin (2 ^ 1000)) (Fin (2 ^ 53)) = Some y"
        unfolding ab by (simp only: stuck_step if_True)
      from ih[OF this] show False by (simp add: stuck_def)
    qed
  qed
  then show ?thesis by (simp add: stuck_def)
qed

subsection \<open>The quest pass and the awards along a sequence of updates\<close>

lemma questCallbackD_fst:
  "fst (questCallbackD questId v q acc) =
     (if q_id q = questId \<and> numLt (q_progress q) (q_goal q)
      then q\<lparr>q_progress := mathMin (numAdd (q_progress q) v) (q_goal q)\<rparr> else q)"
  by (simp add: questCallbackD_def Let_def)

lemma questCallbackD_snd:
  "snd (questCallbackD questId v q acc) =
     (if awardedD questId v q then numAdd acc (q_xp q) else acc)"
  by (auto simp: questCallbackD_def awardedD_def Let_def)

lemma advanceD_eq:
  "advanceD questId v q =
     (if q_id q = questId \<and> numLt (q_progress q) (q_goal q)
      then q\<lparr>q_progress := mathMin (numAdd (q_progress q) v) (q_goal q)\<rparr> else q)"
  by (simp add: advanceD_def questCallbackD_fst)

lemma mapQuestsD_fst:
  "fst (mapQuestsD questId v qs acc) = map (advanceD questId v) qs"
  by (induction qs arbitrary: acc) (simp_all add: split_beta questCallbackD_fst advanceD_def)

lemma mapQuestsD_snd:
  "snd (mapQuestsD questId v qs acc) =
     foldl numAdd acc (map q_xp (filter (awardedD questId v) qs))"
  by (induction qs arbitrary: acc) (simp_all add: split_beta questCallbackD_snd)

lemma xpGainedOfD_fold:
  "xpGainedOfD questId v qs = foldl numAdd (Fin 0) (map q_xp (filter (awardedD questId v) qs))"
  by (simp add: xpGainedOfD_def mapQuestsD_snd)



lemma zip_map_sameD:
  "list_all (\<lambda>(q, p). numEq (q_progress q) (q_progress p)) (zip (map f qs) qs) \<longleftrightarrow>
     (\<forall>q\<in>set qs. numEq (q_progress (f q)) (q_progress q))"
  by (induction qs) simp_all

lemma updateQuestProgressD_unfold:
  "updateQuestProgressD questId v s =
     (if numEq (xpGainedOfD questId v (u_quests s)) (Fin 0) \<and>
         (\<forall>q\<in>set (u_quests s). numEq (q_progress (advanceD questId v q)) (q_progress q))
      then Some s
      else case levelUpD (numAdd (u_xp s) (xpGainedOfD questId v (u_quests s))) (u_level s) of
             None \<Rightarrow> None
           | Some (newXp, newLevel) \<Rightarrow>
               Some (s\<lparr>u_quests := map (advanceD questId v) (u_quests s),
                       u_xp := newXp, u_level := newLevel\<rparr>))"
proof -
  have m: "mapQuestsD questId v (u_quests s) (Fin 0) =
      (map (advanceD questId v) (u_quests s), xpGainedOfD questId v (u_quests s))"
    using mapQuestsD_fst[of questId v "u_quests s" "Fin 0"]
    by (simp add: prod_eq_iff xpGainedOfD_def)
  show ?thesis
    unfolding updateQuestProgressD_def m
    by (simp add: noChangeD_def zip_map_sameD)
qed








section \<open>The claims about the no-op and the scenario\<close>



text \<open>
  C4. A record at level 1 with experience 0 completes a quest worth 250, the only quest
  with that identifier. The gain is 250; the loop takes the level-1 threshold of 100 and
  goes on with 150 at level 2, where \<open>150 < 200\<close> stops it: the result is level 2 with
  residual experience 150, and the quest stands at its goal.
\<close>

theorem scenario_250:
  assumes "level s = 1" and "xp s = 0"
    and "quests s = pre @ q # post"
    and "\<forall>x\<in>set pre \<union> set post. quest_id x \<noteq> questId"
    and "quest_id q = questId" and "quest_xp q = 250"
    and "progress q < goal q" and "goal q \<le> progress q + d"
  shows "xpGainedOf questId d (quests s) = 250 \<and>
         levelUp 250 1 = levelUp (250 - XP_PER_LEVEL * 1) (1 + 1) \<and>
         250 - XP_PER_LEVEL * 1 = 150 \<and> 150 < XP_PER_LEVEL * 2 \<and>
         levelUp 250 1 = (150, 2) \<and>
         level (updateQuestProgress questId d s) = 2 \<and>
         xp (updateQuestProgress questId d s) = 150 \<and>
         quests (updateQuestProgress questId d s) = pre @ q\<lparr>progress := goal q\<rparr> # post"
proof -
  have na: "\<forall>x\<in>set pre \<union> set post. \<not> awarded questId d x"
    using assms(4) by (simp add: awarded_def)
  have "xpGainedOf questId d pre = 0" "xpGainedOf questId d post = 0"
    unfolding xpGainedOf_sum using na by (simp_all add: sum_list_none)
  moreover have "awarded questId d q" using assms(5,7,8) by (simp add: awarded_iff)
  ultimately have g: "xpGainedOf questId d (quests s) = 250"
    using assms(6) by (simp add: assms(3) xpGainedOf_sum)
  have "map (advance questId d) pre = pre" "map (advance questId d) post = post"
    using assms(4) by (simp_all add: advance_eq map_idI)
  moreover have "advance questId d q = q\<lparr>progress := goal q\<rparr>"
    using assms(5,7,8) by (simp add: advance_eq min_def)
  ultimately have m: "map (advance questId d) (quests s) = pre @ q\<lparr>progress := goal q\<rparr> # post"
    by (simp add: assms(3))
  have l: "levelUp 250 1 = levelUp (250 - XP_PER_LEVEL * 1) (1 + 1)"
    by (subst levelUp.simps) (simp add: XP_PER_LEVEL_def)
  have u: "level (updateQuestProgress questId d s) = 2"
    "xp (updateQuestProgress questId d s) = 150"
    "quests (updateQuestProgress questId d s) = pre @ q\<lparr>progress := goal q\<rparr> # post"
    using g m by (simp_all add: updateQuestProgress_unfold assms(1,2) levelUp_250)
  have a: "250 - XP_PER_LEVEL * 1 = 150" "150 < XP_PER_LEVEL * 2"
    by (simp_all add: XP_PER_LEVEL_def)
  from g l a u levelUp_250 show ?thesis by blast
qed

theorem scenario_250_witness:
  "level demoState = 1 \<and> xp demoState = 0 \<and>
   quests demoState = [demoQuest] @ scenarioQuest # [doneQuest] \<and>
   quest_id demoQuest \<noteq> ''q2'' \<and> quest_id doneQuest \<noteq> ''q2'' \<and>
   quest_id scenarioQuest = ''q2'' \<and> quest_xp scenarioQuest = 250 \<and>
   progress scenarioQuest < goal scenarioQuest \<and>
   goal scenarioQuest \<le> progress scenarioQuest + 3 \<and>
   level (updateQuestProgress ''q2'' 3 demoState) = 2 \<and>
   xp (updateQuestProgress ''q2'' 3 demoState) = 150"
proof -
  have h: "level demoState = 1" "xp demoState = 0"
    "quests demoState = [demoQuest] @ scenarioQuest # [doneQuest]"
    "\<forall>x\<in>set [demoQuest] \<union> set [doneQuest]. quest_id x \<noteq> ''q2''"
    "quest_id scenarioQuest = ''q2''" "quest_xp scenarioQuest = 250"
    "progress scenarioQuest < goal scenarioQuest"
    "goal scenarioQuest \<le> progress scenarioQuest + 3"
    by (simp_all add: demoState_def demoQuest_def scenarioQuest_def doneQuest_def)
  have o: "quest_id demoQuest \<noteq> ''q2''" "quest_id doneQuest \<noteq> ''q2''"
    by (simp_all add: demoQuest_def doneQuest_def)
  from scenario_250[OF h] h(1,2,3,5,6,7,8) o show ?thesis by blast
qed

subsection \<open>Evaluating the examples\<close>

lemma fl_small [simp]:
  "fl 20 = Fin 20" "fl 40 = Fin 40" "fl 100 = Fin 100" "fl 300 = Fin 300"
  using fl_int[of 20] fl_int[of 40] fl_int[of 100] fl_int[of 300] by simp_all

lemma fl_1 [simp]: "fl 1 = Fin 1"
  using fl_int[of 1] by simp

lemma fl_pow53 [simp]: "fl (2 ^ 53) = Fin (2 ^ 53)" "fl 9007199254740992 = Fin 9007199254740992"
  using fl_int[of "2 ^ 53"] by simp_all



lemma demo_updateD:
  "updateQuestProgressD ''q1'' (Fin 15) demoStateD =
     Some (demoStateD\<lparr>u_quests := [demoQuestD\<lparr>q_progress := Fin 20\<rparr>],
                       u_xp := Fin 0, u_level := Fin 3\<rparr>)"
proof -
  have a: "awardedD ''q1'' (Fin 15) demoQuestD"
    by (simp add: awardedD_def demoQuestD_def)
  have g: "xpGainedOfD ''q1'' (Fin 15) (u_quests demoStateD) = Fin 300"
    by (simp add: xpGainedOfD_fold a demoStateD_def) (simp add: demoQuestD_def)
  have m: "map (advanceD ''q1'' (Fin 15)) (u_quests demoStateD) = [demoQuestD\<lparr>q_progress := Fin 20\<rparr>]"
    by (simp add: advanceD_eq demoStateD_def demoQuestD_def)
  have l: "levelUpD (Fin 300) (Fin 1) = Some (Fin 0, Fin 3)"
    using levelUpD_safe[of 1 300] by (simp add: levelUp_300)
  have x: "numAdd (u_xp demoStateD) (Fin 300) = Fin 300" "u_level demoStateD = Fin 1"
    by (simp_all add: demoStateD_def)
  show ?thesis
    unfolding updateQuestProgressD_unfold g m x l by simp
qed

lemma big_updateD:
  "xpGainedOfD ''big'' (Fin 1) (u_quests bigStateD) = Fin (2 ^ 53)"
  "updateQuestProgressD ''big'' (Fin 1) bigStateD =
     Some (bigStateD\<lparr>u_quests := [bigQuestD\<lparr>q_progress := Fin 1\<rparr>],
                      u_xp := Fin (2 ^ 53), u_level := Fin (2 ^ 52)\<rparr>)"
proof -
  have a: "awardedD ''big'' (Fin 1) bigQuestD"
    by (simp add: awardedD_def bigQuestD_def)
  show g: "xpGainedOfD ''big'' (Fin 1) (u_quests bigStateD) = Fin (2 ^ 53)"
    by (simp add: xpGainedOfD_fold a bigStateD_def) (simp add: bigQuestD_def)
  have m: "map (advanceD ''big'' (Fin 1)) (u_quests bigStateD) = [bigQuestD\<lparr>q_progress := Fin 1\<rparr>]"
    by (simp add: advanceD_eq bigStateD_def bigQuestD_def)
  have t: "numMul (Fin 100) (Fin (2 ^ 52)) = Fin (100 * 2 ^ 52)"
  proof -
    have "fl (100 * 2 ^ 52) = Fin (100 * 2 ^ 52)"
      by (rule fl_rep[of _ 25 54]) simp_all
    then show ?thesis by simp
  qed
  have "\<not> numGe (Fin (2 ^ 53)) (Fin (100 * 2 ^ 52))" by simp
  then have l: "levelUpD (Fin (2 ^ 53)) (Fin (2 ^ 52)) = Some (Fin (2 ^ 53), Fin (2 ^ 52))"
    by (subst levelUpD.simps) (simp only: t if_False)
  have "(1 + 2 ^ 53 :: real) = 2 ^ 53 + 1" by simp
  then have "fl (1 + 2 ^ 53) = Fin (2 ^ 53)" using fl_tie_2_53 by (simp only:)
  then have "numAdd (Fin 1) (Fin (2 ^ 53)) = Fin (2 ^ 53)" by (simp only: numAdd.simps)
  then have x: "numAdd (u_xp bigStateD) (Fin (2 ^ 53)) = Fin (2 ^ 53)"
    "u_level bigStateD = Fin (2 ^ 52)"
    by (simp_all add: bigStateD_def)
  have n: "\<not> numEq (Fin (2 ^ 53)) (Fin 0)" by simp
  show "updateQuestProgressD ''big'' (Fin 1) bigStateD =
     Some (bigStateD\<lparr>u_quests := [bigQuestD\<lparr>q_progress := Fin 1\<rparr>],
                      u_xp := Fin (2 ^ 53), u_level := Fin (2 ^ 52)\<rparr>)"
    unfolding updateQuestProgressD_unfold g m x l using n by simp
qed




section \<open>The claims about the progression engine on doubles\<close>

text \<open>
  C1, as the specification states it, fails: line 417 adds the gain to the experience in
  doubles, and the sum is rounded. A record at level \<open>2^52\<close> with experience 1, below its
  threshold \<open>100 * 2^52\<close>, completes a quest worth \<open>2^53\<close>. The update returns experience
  \<open>2^53\<close> at the same level: the residual experience and the thresholds consumed (none)
  add up to \<open>2^53\<close>, not to \<open>xp + g = 2^53 + 1\<close>. One point of experience is lost.
\<close>

theorem levelUp_accounting_counterexample:
  "u_level bigStateD = Fin (of_int (2 ^ 52)) \<and> u_xp bigStateD = Fin (of_int 1) \<and>
   (1::int) \<le> 2 ^ 52 \<and> (0::int) \<le> 1 \<and> (1::int) < 100 * 2 ^ 52 \<and>
   xpGainedOfD ''big'' (Fin 1) (u_quests bigStateD) = Fin (of_int (2 ^ 53)) \<and>
   updateQuestProgressD ''big'' (Fin 1) bigStateD =
     Some (bigStateD\<lparr>u_quests := [bigQuestD\<lparr>q_progress := Fin 1\<rparr>],
                      u_xp := Fin (of_int (2 ^ 53)), u_level := Fin (of_int (2 ^ 52))\<rparr>) \<and>
   (2 ^ 53 :: int) + (\<Sum>k = 2 ^ 52..<(2 ^ 52 :: int). 100 * k) \<noteq> 1 + 2 ^ 53"
  using big_updateD by (simp add: bigStateD_def)

text \<open>
  C1, amended. Level, experience and gain are whole numbers and \<open>xp + g\<close> is at most
  \<open>2^53\<close>. For a record at level \<open>L \<ge> 1\<close> with experience \<open>0 \<le> X < 100 * L\<close> and an
  update whose quest pass gains \<open>g \<ge> 0\<close> with \<open>X + g \<le> 2^53\<close>, the update returns a
  record with a whole level \<open>L' \<ge> L\<close> and a whole residual experience \<open>0 \<le> E < 100 * L'\<close>
  such that \<open>E\<close> and the thresholds \<open>100 * k\<close> for \<open>k\<close> from \<open>L\<close> to \<open>L' - 1\<close> add up to
  \<open>X + g\<close>. In that range the loop neither creates nor loses experience, and one gain
  may raise the level several times.
\<close>

theorem levelUp_accounting_exact_range:
  assumes "u_level s = Fin (of_int L)" and "u_xp s = Fin (of_int X)"
    and "1 \<le> L" and "0 \<le> X" and "X < 100 * L"
    and "xpGainedOfD questId v (u_quests s) = Fin (of_int g)" and "0 \<le> g"
    and "X + g \<le> 2 ^ 53"
  shows "\<exists>s' E L'. updateQuestProgressD questId v s = Some s' \<and>
           u_xp s' = Fin (of_int E) \<and> u_level s' = Fin (of_int L') \<and>
           0 \<le> E \<and> E < 100 * L' \<and> L \<le> L' \<and>
           E + (\<Sum>k = L..<L'. 100 * k) = X + g"
proof (cases "numEq (xpGainedOfD questId v (u_quests s)) (Fin 0) \<and>
         (\<forall>q\<in>set (u_quests s). numEq (q_progress (advanceD questId v q)) (q_progress q))")
  case True
  then have u: "updateQuestProgressD questId v s = Some s"
    by (simp add: updateQuestProgressD_unfold)
  from True assms(6) have "g = 0" by simp
  with u assms show ?thesis by (intro exI[of _ s] exI[of _ X] exI[of _ L]) simp
next
  case False
  obtain E L' where r: "levelUp (X + g) L = (E, L')" by force
  have "fl (of_int (X + g)) = Fin (of_int (X + g))"
    using assms(4,7,8) by (intro fl_int) simp
  then have a: "numAdd (u_xp s) (xpGainedOfD questId v (u_quests s)) = Fin (of_int (X + g))"
    by (simp add: assms(2,6))
  have l: "levelUpD (Fin (of_int (X + g))) (Fin (of_int L)) = Some (Fin (of_int E), Fin (of_int L'))"
    using levelUpD_safe[of L "X + g"] assms(3,4,7,8) r by simp
  let ?s' = "s\<lparr>u_quests := map (advanceD questId v) (u_quests s),
                u_xp := Fin (of_int E), u_level := Fin (of_int L')\<rparr>"
  have u: "updateQuestProgressD questId v s = Some ?s'"
    unfolding updateQuestProgressD_unfold if_not_P[OF False] a assms(1) l by simp
  have "0 \<le> E" using levelUp_nonneg[OF r assms(3)] assms(4,7) by simp
  moreover have "E < 100 * L' \<and> L \<le> L' \<and> E + (\<Sum>k = L..<L'. 100 * k) = X + g"
    using levelUp_spec[OF r] by (simp add: XP_PER_LEVEL_def)
  ultimately show ?thesis
    using u by (intro exI[of _ ?s'] exI[of _ E] exI[of _ L']) simp
qed

text \<open>A gain of 300 at level 1 with experience 0: two level-ups in one call.\<close>

theorem levelUp_accounting_exact_range_witness:
  "updateQuestProgressD ''q1'' (Fin 15) demoStateD =
     Some (demoStateD\<lparr>u_quests := [demoQuestD\<lparr>q_progress := Fin 20\<rparr>],
                       u_xp := Fin 0, u_level := Fin 3\<rparr>) \<and>
   (\<exists>s' E L'. updateQuestProgressD ''q1'' (Fin 15) demoStateD = Some s' \<and>
      u_xp s' = Fin (of_int E) \<and> u_level s' = Fin (of_int L') \<and>
      0 \<le> E \<and> E < 100 * L' \<and> 1 \<le> L' \<and>
      E + (\<Sum>k = 1..<L'. 100 * k) = 0 + 300)"
proof -
  have h: "u_level demoStateD = Fin (of_int 1)" "u_xp demoStateD = Fin (of_int 0)"
    "(1::int) \<le> 1" "(0::int) \<le> 0" "(0::int) < 100 * 1"
    by (simp_all add: demoStateD_def)
  have a: "awardedD ''q1'' (Fin 15) demoQuestD"
    by (simp add: awardedD_def demoQuestD_def)
  have g: "xpGainedOfD ''q1'' (Fin 15) (u_quests demoStateD) = Fin (of_int 300)"
    by (simp add: xpGainedOfD_fold a demoStateD_def) (simp add: demoQuestD_def)
  have b: "(0::int) \<le> 300" "(0::int) + 300 \<le> 2 ^ 53" by simp_all
  from levelUp_accounting_exact_range[OF h g b] demo_updateD show ?thesis by blast
qed



text \<open>
  C9, as the specification states it, fails: the level \<open>2^53\<close> is at least 1 and the
  total \<open>2^1000\<close> is finite and not negative, and from them the loop does not return.
  The threshold \<open>100 * 2^53\<close> is below the spacing of the doubles at \<open>2^1000\<close>, so the
  subtraction leaves the total as it is, and \<open>2^53 + 1\<close> is rounded back to \<open>2^53\<close>, so
  the increment leaves the level as it is: every round starts where the last one did.
\<close>

theorem levelUp_loop_counterexample:
  "(1::real) \<le> 2 ^ 53 \<and> (0::real) \<le> 2 ^ 1000 \<and>
   numGe (Fin (2 ^ 1000)) (numMul (Fin 100) (Fin (2 ^ 53))) \<and>
   numSub (Fin (2 ^ 1000)) (numMul (Fin 100) (Fin (2 ^ 53))) = Fin (2 ^ 1000) \<and>
   numAdd (Fin (2 ^ 53)) (Fin 1) = Fin (2 ^ 53) \<and>
   levelUpD (Fin (2 ^ 1000)) (Fin (2 ^ 53)) = None"
  using levelUpD_stuck stuck_step by simp

text \<open>
  C9, amended. The loop terminates for every whole starting level \<open>L \<ge> 1\<close> and every
  whole experience total \<open>0 \<le> x \<le> 2^53\<close>: there every threshold, subtraction and
  increment that the loop reaches is exact, the loop returns the pair \<open>(E, L')\<close> that
  the function \<open>levelUp\<close>, defined by well-founded recursion on the integers, computes,
  and since every round took at least 100 from the total, the number of rounds
  \<open>L' - L\<close> is at most \<open>(x - E) / 100\<close>.
\<close>

theorem levelUp_loop_returns_exact_range:
  assumes "1 \<le> L" and "0 \<le> x" and "x \<le> 2 ^ 53"
  shows "\<exists>E L'. levelUpD (Fin (of_int x)) (Fin (of_int L)) =
                  Some (Fin (of_int E), Fin (of_int L')) \<and>
           levelUp x L = (E, L') \<and>
           0 \<le> E \<and> E < 100 * L' \<and> L \<le> L' \<and> 100 * (L' - L) \<le> x - E"
proof -
  obtain E L' where r: "levelUp x L = (E, L')" by force
  have "levelUpD (Fin (of_int x)) (Fin (of_int L)) = Some (Fin (of_int E), Fin (of_int L'))"
    using levelUpD_safe[OF assms] r by simp
  moreover have "0 \<le> E" by (rule levelUp_nonneg[OF r assms(1,2)])
  moreover have "E < 100 * L' \<and> L \<le> L'"
    using levelUp_spec[OF r] by (simp add: XP_PER_LEVEL_def)
  moreover have "100 * (L' - L) \<le> x - E"
    using levelUp_rounds[OF r assms(1)] by (simp add: XP_PER_LEVEL_def)
  ultimately show ?thesis using r by blast
qed

text \<open>A total of 250 at level 1: one round, and the loop returns 150 at level 2.\<close>

theorem levelUp_loop_returns_exact_range_witness:
  "(1::int) \<le> 1 \<and> (0::int) \<le> 250 \<and> (250::int) \<le> 2 ^ 53 \<and> levelUp 250 1 = (150, 2) \<and>
   levelUpD (Fin 250) (Fin 1) = Some (Fin 150, Fin 2)"
  using levelUp_loop_returns_exact_range[of 1 250] by (simp add: levelUp_250)

section \<open>The claims about startup and the daily refresh\<close>

lemma getAiResponse_failure:
  "response = Rejected \<or> (\<exists>text. response = ResponseText text \<and> parseAiJson text = None)
     \<longleftrightarrow> getAiResponse parseAiJson response = None"
  by (cases response) (auto simp: getAiResponse_def split: option.splits)

lemma demo_days:
  "dayChanged nextDay demoState" "\<not> dayChanged sameDay demoState"
  by (simp_all add: dayChanged_def isoDay_def msPerDay_def nextDay_def sameDay_def
      demoState_def)

lemma demo_batch:
  "getAiResponse demoParser (ResponseText ''batch'') =
     Some (QuestArray [demoQuest, scenarioQuest])"
  by (simp add: getAiResponse_def demoParser_def)

text \<open>
  C5. Startup with a persisted record \<open>saved\<close>. If the day of \<open>lastLogin\<close> differs from
  the current day and the oracle delivers a batch, the record in use and in the slot has
  the quests of the batch, each with progress 0, both daily counters 0 and \<open>lastLogin\<close>
  the instant of stamping; level, experience, name, difficulty and skills are those of
  \<open>saved\<close>. If the days are the same, \<open>saved\<close> itself is in use and the slot keeps it.
\<close>

theorem daily_refresh_on_load:
  "(dayChanged now saved \<longrightarrow>
      getAiResponse parseAiJson response = Some (QuestArray batch) \<longrightarrow>
      (\<exists>s'. loadEffect parseAiJson now now' response (Stored saved) =
               \<lparr>userState = Some s', storage = Stored s', isLoading = False\<rparr> \<and>
            quests s' = map (\<lambda>q. q\<lparr>progress := 0\<rparr>) batch \<and>
            (\<forall>q\<in>set (quests s'). progress q = 0) \<and>
            dailySteps s' = 0 \<and> dailyDistance s' = 0 \<and> lastLogin s' = now' \<and>
            level s' = level saved \<and> xp s' = xp saved \<and> name s' = name saved \<and>
            difficulty s' = difficulty saved \<and> skills s' = skills saved)) \<and>
   (\<not> dayChanged now saved \<longrightarrow>
      loadEffect parseAiJson now now' response (Stored saved) =
        \<lparr>userState = Some saved, storage = Stored saved, isLoading = False\<rparr>)"
  by (auto simp: loadEffect_def generateNewQuests_def)

theorem daily_refresh_on_load_witness:
  "dayChanged nextDay demoState \<and>
   getAiResponse demoParser (ResponseText ''batch'') =
     Some (QuestArray [demoQuest, scenarioQuest]) \<and>
   loadEffect demoParser nextDay (nextDay + 3000) (ResponseText ''batch'') (Stored demoState) =
     \<lparr>userState =
        Some (demoState\<lparr>quests := [demoQuest\<lparr>progress := 0\<rparr>, scenarioQuest\<lparr>progress := 0\<rparr>],
                lastLogin := nextDay + 3000, dailyDistance := 0, dailySteps := 0\<rparr>),
      storage =
        Stored (demoState\<lparr>quests := [demoQuest\<lparr>progress := 0\<rparr>, scenarioQuest\<lparr>progress := 0\<rparr>],
                lastLogin := nextDay + 3000, dailyDistance := 0, dailySteps := 0\<rparr>),
      isLoading = False\<rparr> \<and>
   \<not> dayChanged sameDay demoState \<and>
   loadEffect demoParser sameDay (sameDay + 3000) (ResponseText ''batch'') (Stored demoState) =
     \<lparr>userState = Some demoState, storage = Stored demoState, isLoading = False\<rparr>"
proof -
  note a = daily_refresh_on_load[of nextDay demoState demoParser "ResponseText ''batch''"
      "[demoQuest, scenarioQuest]" "nextDay + 3000"]
  note b = daily_refresh_on_load[of sameDay demoState demoParser "ResponseText ''batch''"
      "[demoQuest, scenarioQuest]" "sameDay + 3000"]
  from a demo_days(1) demo_batch obtain s' where
    l: "loadEffect demoParser nextDay (nextDay + 3000) (ResponseText ''batch'') (Stored demoState) =
          \<lparr>userState = Some s', storage = Stored s', isLoading = False\<rparr>"
    and q: "quests s' = map (\<lambda>q. q\<lparr>progress := 0\<rparr>) [demoQuest, scenarioQuest]"
    and r: "dailySteps s' = 0" "dailyDistance s' = 0" "lastLogin s' = nextDay + 3000"
      "level s' = level demoState" "xp s' = xp demoState" "name s' = name demoState"
      "difficulty s' = difficulty demoState" "skills s' = skills demoState"
    by blast
  have "s' = demoState\<lparr>quests := [demoQuest\<lparr>progress := 0\<rparr>, scenarioQuest\<lparr>progress := 0\<rparr>],
                lastLogin := nextDay + 3000, dailyDistance := 0, dailySteps := 0\<rparr>"
    using q r by (cases s') (simp add: demoState_def)
  with l b demo_days demo_batch show ?thesis by simp
qed

text \<open>
  C7. The oracle fails during a daily refresh: the call throws, or the text of its
  response does not parse. Then the refresh completes (\<open>isLoading\<close> is cleared), and the
  record in use and in the slot is \<open>saved\<close> with an empty quest list, both daily counters
  0 and \<open>lastLogin\<close> the instant of stamping; level, experience, name, difficulty and
  skills are those of \<open>saved\<close>.
\<close>

theorem refresh_survives_oracle_failure:
  assumes "dayChanged now saved"
    and "response = Rejected \<or> (\<exists>text. response = ResponseText text \<and> parseAiJson text = None)"
    and "s' = saved\<lparr>quests := [], lastLogin := now', dailyDistance := 0, dailySteps := 0\<rparr>"
  shows "getAiResponse parseAiJson response = None \<and>
         loadEffect parseAiJson now now' response (Stored saved) =
           \<lparr>userState = Some s', storage = Stored s', isLoading = False\<rparr> \<and>
         quests s' = [] \<and> dailySteps s' = 0 \<and> dailyDistance s' = 0 \<and> lastLogin s' = now' \<and>
         level s' = level saved \<and> xp s' = xp saved \<and> name s' = name saved \<and>
         difficulty s' = difficulty saved \<and> skills s' = skills saved"
proof -
  have "getAiResponse parseAiJson response = None"
    using assms(2) by (simp add: getAiResponse_failure)
  then show ?thesis
    using assms(1,3) by (simp add: loadEffect_def generateNewQuests_def)
qed

theorem refresh_survives_oracle_failure_witness:
  "dayChanged nextDay demoState \<and> demoParser ''<html>'' = None \<and>
   loadEffect demoParser nextDay (nextDay + 3000) Rejected (Stored demoState) =
     \<lparr>userState = Some (demoState\<lparr>quests := [], lastLogin := nextDay + 3000,
                                  dailyDistance := 0, dailySteps := 0\<rparr>),
      storage = Stored (demoState\<lparr>quests := [], lastLogin := nextDay + 3000,
                                  dailyDistance := 0, dailySteps := 0\<rparr>),
      isLoading = False\<rparr> \<and>
   loadEffect demoParser nextDay (nextDay + 3000) (ResponseText ''<html>'') (Stored demoState) =
     \<lparr>userState = Some (demoState\<lparr>quests := [], lastLogin := nextDay + 3000,
                                  dailyDistance := 0, dailySteps := 0\<rparr>),
      storage = Stored (demoState\<lparr>quests := [], lastLogin := nextDay + 3000,
                                  dailyDistance := 0, dailySteps := 0\<rparr>),
      isLoading = False\<rparr>"
proof -
  have p: "demoParser ''<html>'' = None" by (simp add: demoParser_def)
  have f1: "Rejected = Rejected \<or>
      (\<exists>text. Rejected = ResponseText text \<and> demoParser text = None)" by simp
  have f2: "ResponseText ''<html>'' = Rejected \<or>
      (\<exists>text. ResponseText ''<html>'' = ResponseText text \<and> demoParser text = None)"
    using p by simp
  from refresh_survives_oracle_failure[OF demo_days(1) f1 refl, of "nextDay + 3000"]
    refresh_survives_oracle_failure[OF demo_days(1) f2 refl, of "nextDay + 3000"]
    demo_days(1) p
  show ?thesis by blast
qed

lemma day_window:
  fixes a d :: int
  assumes "0 < d"
  shows "a div d * d \<le> a \<and> a < (a div d + 1) * d"
proof -
  have m: "0 \<le> a mod d" "a mod d < d" using assms by simp_all
  have "a div d * d = a - a mod d" using div_mult_mod_eq[of a d] by linarith
  with m show ?thesis by (simp add: distrib_right)
qed

text \<open>
  C6, as the specification states it, fails: the comparison is made on the UTC dates
  that \<open>toISOString\<close> renders. In a zone two hours ahead of UTC, two instants of the same
  local day trigger a refresh, and two instants of different local days trigger none.
\<close>

theorem local_day_counterexample:
  "localCalendarDay 120 lateEvening = localCalendarDay 120 nextDay \<and>
   dayChanged nextDay (demoState\<lparr>lastLogin := lateEvening\<rparr>) \<and>
   localCalendarDay 120 beforeLocalMidnight \<noteq> localCalendarDay 120 afterLocalMidnight \<and>
   \<not> dayChanged afterLocalMidnight (demoState\<lparr>lastLogin := beforeLocalMidnight\<rparr>)"
  by (simp add: localCalendarDay_def dayChanged_def isoDay_def msPerDay_def lateEvening_def
      nextDay_def beforeLocalMidnight_def afterLocalMidnight_def)

text \<open>
  C6, amended. The decision compares the two instants as calendar dates in UTC, the zone
  with offset 0: a refresh is triggered exactly when the UTC days differ, that is, when no
  single day \<open>[k * msPerDay, (k + 1) * msPerDay)\<close> holds both instants. The local zone
  plays no part.
\<close>

theorem refresh_decision_utc:
  "(dayChanged now saved \<longleftrightarrow>
      localCalendarDay 0 now \<noteq> localCalendarDay 0 (lastLogin saved)) \<and>
   (\<not> dayChanged now saved \<longleftrightarrow>
      (\<exists>k. k * msPerDay \<le> now \<and> now < (k + 1) * msPerDay \<and>
           k * msPerDay \<le> lastLogin saved \<and> lastLogin saved < (k + 1) * msPerDay))"
proof -
  have w: "(\<exists>k. k * msPerDay \<le> a \<and> a < (k + 1) * msPerDay \<and>
                k * msPerDay \<le> b \<and> b < (k + 1) * msPerDay) \<longleftrightarrow>
           a div msPerDay = b div msPerDay" for a b :: int
  proof
    assume "\<exists>k. k * msPerDay \<le> a \<and> a < (k + 1) * msPerDay \<and>
                k * msPerDay \<le> b \<and> b < (k + 1) * msPerDay"
    then obtain k where k: "k * 86400000 \<le> a" "a < (k + 1) * 86400000"
      "k * 86400000 \<le> b" "b < (k + 1) * 86400000"
      by (auto simp: msPerDay_def)
    then have "a div 86400000 = k" "b div 86400000 = k"
      by (auto intro: int_div_pos_eq[of _ _ _ "a - 86400000 * k"]
          int_div_pos_eq[of _ _ _ "b - 86400000 * k"])
    then show "a div msPerDay = b div msPerDay" by (simp add: msPerDay_def)
  next
    assume e: "a div msPerDay = b div msPerDay"
    have "(a div 86400000) * 86400000 \<le> a \<and> a < (a div 86400000 + 1) * 86400000"
      by (rule day_window) simp
    moreover have "(b div 86400000) * 86400000 \<le> b \<and> b < (b div 86400000 + 1) * 86400000"
      by (rule day_window) simp
    ultimately show "\<exists>k. k * msPerDay \<le> a \<and> a < (k + 1) * msPerDay \<and>
                k * msPerDay \<le> b \<and> b < (k + 1) * msPerDay"
      using e unfolding msPerDay_def by (intro exI[of _ "a div 86400000"]) simp
  qed
  show ?thesis
    unfolding w by (simp add: dayChanged_def isoDay_def localCalendarDay_def)
qed

theorem refresh_decision_utc_witness:
  "dayChanged nextDay demoState \<and>
   localCalendarDay 0 nextDay = 19724 \<and> localCalendarDay 0 (lastLogin demoState) = 19723 \<and>
   \<not> dayChanged sameDay demoState \<and>
   19723 * msPerDay \<le> sameDay \<and> sameDay < (19723 + 1) * msPerDay \<and>
   19723 * msPerDay \<le> lastLogin demoState \<and> lastLogin demoState < (19723 + 1) * msPerDay"
proof -
  have "localCalendarDay 0 nextDay = 19724" "localCalendarDay 0 (lastLogin demoState) = 19723"
    "19723 * msPerDay \<le> sameDay" "sameDay < (19723 + 1) * msPerDay"
    "19723 * msPerDay \<le> lastLogin demoState" "lastLogin demoState < (19723 + 1) * msPerDay"
    by (simp_all add: localCalendarDay_def msPerDay_def nextDay_def sameDay_def demoState_def)
  with refresh_decision_utc[of nextDay demoState] refresh_decision_utc[of sameDay demoState]
  show ?thesis by auto
qed

section \<open>The claim about the daily counters\<close>

lemma initialState_zero:
  "initialState parseAiJson newAnswers now response = Some s \<Longrightarrow> countersZero s"
  by (auto simp: initialState_def countersZero_def split: option.splits AiData.splits)

lemma generateNewQuests_zero:
  "generateNewQuests parseAiJson now' response parsedState = Some s \<Longrightarrow> countersZero s"
  by (auto simp: generateNewQuests_def countersZero_def split: option.splits AiData.splits)

lemma update_zero:
  "countersZero (updateQuestProgress questId v s) = countersZero s"
  by (simp add: countersZero_def update_keeps_rest)

lemma loadEffect_zero:
  assumes "case slot of Stored s \<Rightarrow> countersZero s | _ \<Rightarrow> True"
  shows "appCountersZero (loadEffect parseAiJson now now' response slot)"
proof (cases slot)
  case (Stored parsedState)
  with assms have z: "countersZero parsedState" by simp
  show ?thesis
  proof (cases "generateNewQuests parseAiJson now' response parsedState")
    case None
    with Stored z show ?thesis by (simp add: loadEffect_def appCountersZero_def)
  next
    case (Some newState)
    with Stored z generateNewQuests_zero[OF Some] show ?thesis
      by (simp add: loadEffect_def appCountersZero_def)
  qed
qed (simp_all add: loadEffect_def appCountersZero_def)

lemma appStep_zero:
  assumes "appCountersZero app"
  shows "appCountersZero (appStep parseAiJson e app)"
proof (cases e)
  case (Mount now now' response)
  from assms have "case storage app of Stored s \<Rightarrow> countersZero s | _ \<Rightarrow> True"
    by (simp add: appCountersZero_def)
  from loadEffect_zero[OF this] Mount show ?thesis by simp
next
  case (SubmitQuestionnaire newAnswers now response)
  show ?thesis
  proof (cases "initialState parseAiJson newAnswers now response")
    case None
    with SubmitQuestionnaire assms show ?thesis by simp
  next
    case (Some s)
    with SubmitQuestionnaire initialState_zero[OF Some] show ?thesis
      by (simp add: updateAndSaveState_def appCountersZero_def)
  qed
next
  case (QuestUpdate questId v)
  show ?thesis
  proof (cases "userState app")
    case None
    with QuestUpdate assms show ?thesis
      by (simp add: updateAndSaveState_def appCountersZero_def)
  next
    case (Some s)
    with assms have "countersZero s" by (simp add: appCountersZero_def)
    with QuestUpdate Some show ?thesis
      by (simp add: updateAndSaveState_def appCountersZero_def update_zero)
  qed
next
  case ResetProgress
  then show ?thesis by (simp add: appCountersZero_def)
qed

lemma run_zero:
  "appCountersZero app \<Longrightarrow> appCountersZero (run parseAiJson es app)"
  by (induction es arbitrary: app) (simp_all add: appStep_zero)

lemma demo_assessment:
  "initialState demoParser [''Jin''] sameDay (ResponseText ''assessment'') =
     Some \<lparr>level = 1, xp = 0, difficulty = ''E'', quests = [demoQuest\<lparr>progress := 0\<rparr>],
           skills = [], name = ''Jin'', lastLogin = sameDay,
           dailySteps = 0, dailyDistance = 0\<rparr>"
  by (simp add: initialState_def getAiResponse_def demoParser_def)

text \<open>
  C10. No operation raises the daily counters. The record the questionnaire builds and
  the record a daily refresh builds have both counters 0, and \<open>updateQuestProgress\<close>
  returns the counters it was given. Hence after any sequence of operations on a fresh
  installation, the record in use and the record in the slot, when there is one, have
  \<open>dailySteps = 0\<close> and \<open>dailyDistance = 0\<close>.
\<close>

theorem daily_counters_stay_zero:
  "(initialState parseAiJson newAnswers now response = Some s0 \<longrightarrow>
      dailySteps s0 = 0 \<and> dailyDistance s0 = 0) \<and>
   (generateNewQuests parseAiJson now' response parsedState = Some s1 \<longrightarrow>
      dailySteps s1 = 0 \<and> dailyDistance s1 = 0) \<and>
   dailySteps (updateQuestProgress questId v s) = dailySteps s \<and>
   dailyDistance (updateQuestProgress questId v s) = dailyDistance s \<and>
   (userState (run parseAiJson es freshInstall) = Some s2 \<longrightarrow>
      dailySteps s2 = 0 \<and> dailyDistance s2 = 0) \<and>
   (storage (run parseAiJson es freshInstall) = Stored s3 \<longrightarrow>
      dailySteps s3 = 0 \<and> dailyDistance s3 = 0)"
proof -
  have "appCountersZero freshInstall"
    by (simp add: appCountersZero_def freshInstall_def)
  then have r: "appCountersZero (run parseAiJson es freshInstall)" by (rule run_zero)
  have u: "userState (run parseAiJson es freshInstall) = Some s2 \<longrightarrow> countersZero s2"
    using r by (auto simp: appCountersZero_def)
  have t: "storage (run parseAiJson es freshInstall) = Stored s3 \<longrightarrow> countersZero s3"
    using r by (auto simp: appCountersZero_def)
  from u t initialState_zero[of parseAiJson newAnswers now response s0]
    generateNewQuests_zero[of parseAiJson now' response parsedState s1]
  show ?thesis by (auto simp: countersZero_def update_keeps_rest)
qed

lemma demoSession_run:
  "run demoParser demoSession freshInstall =
     \<lparr>userState = Some demoSessionEnd, storage = Stored demoSessionEnd, isLoading = False\<rparr>"
proof -
  let ?s0 = "\<lparr>level = 1, xp = 0, difficulty = ''E'', quests = [demoQuest\<lparr>progress := 0\<rparr>],
           skills = [], name = ''Jin'', lastLogin = sameDay,
           dailySteps = 0, dailyDistance = 0\<rparr>"
  let ?s1 = "?s0\<lparr>quests := [demoQuest\<lparr>progress := 20\<rparr>], xp := 0, level := 3\<rparr>"
  have a1: "appStep demoParser (Mount sameDay sameDay Rejected) freshInstall =
      \<lparr>userState = None, storage = Absent, isLoading = False\<rparr>"
    by (simp add: freshInstall_def loadEffect_def)
  have a2: "appStep demoParser
        (SubmitQuestionnaire [''Jin''] sameDay (ResponseText ''assessment''))
        \<lparr>userState = None, storage = Absent, isLoading = False\<rparr> =
      \<lparr>userState = Some ?s0, storage = Stored ?s0, isLoading = False\<rparr>"
    by (simp add: demo_assessment updateAndSaveState_def)
  have u: "updateQuestProgress ''q1'' 20 ?s0 = ?s1"
    by (simp add: updateQuestProgress_unfold xpGainedOf_sum awarded_iff advance_eq
        demoQuest_def levelUp_300)
  have a3: "appStep demoParser (QuestUpdate ''q1'' 20)
        \<lparr>userState = Some ?s0, storage = Stored ?s0, isLoading = False\<rparr> =
      \<lparr>userState = Some ?s1, storage = Stored ?s1, isLoading = False\<rparr>"
    by (simp only: appStep.simps updateAndSaveState_def Let_def App.simps option.map u)
       simp
  have d: "dayChanged nextDay ?s1"
    by (simp add: dayChanged_def isoDay_def msPerDay_def nextDay_def sameDay_def)
  have a4: "appStep demoParser (Mount nextDay (nextDay + 3000) (ResponseText ''batch''))
        \<lparr>userState = Some ?s1, storage = Stored ?s1, isLoading = False\<rparr> =
      \<lparr>userState = Some demoSessionEnd, storage = Stored demoSessionEnd, isLoading = False\<rparr>"
    using d by (simp add: loadEffect_def generateNewQuests_def demo_batch demoSessionEnd_def)
  show ?thesis
    by (simp only: demoSession_def run.simps a1 a2 a3 a4)
qed

theorem daily_counters_stay_zero_witness:
  "userState (run demoParser demoSession freshInstall) = Some demoSessionEnd \<and>
   storage (run demoParser demoSession freshInstall) = Stored demoSessionEnd \<and>
   level demoSessionEnd = 3 \<and>
   dailySteps demoSessionEnd = 0 \<and> dailyDistance demoSessionEnd = 0"
proof -
  have r: "userState (run demoParser demoSession freshInstall) = Some demoSessionEnd"
    "storage (run demoParser demoSession freshInstall) = Stored demoSessionEnd"
    by (simp_all add: demoSession_run)
  have l: "level demoSessionEnd = 3" by (simp add: demoSessionEnd_def)
  from daily_counters_stay_zero[of demoParser _ _ _ _ _ _ _ _ _ _ demoSession demoSessionEnd]
    r l
  show ?thesis by blast
qed

end
